theory Spec2Isabelle
  imports Main
begin

section \<open>Racketlon score calculator: the scoring engine of scoring.js\<close>

text \<open>
  The engine is the pure function \<^verbatim>\<open>analyzeMatch\<close> of scoring.js together with its
  helpers. Its model follows the source statement by statement.

  \<^item> A JavaScript string is a sequence of UTF-16 code units; it is modelled as a list of
    code units (natural numbers). ASCII text is written with \<open>asc\<close>, every other
    character of a message literal by its code units.
  \<^item> A JavaScript number is a double. The source only adds, subtracts, compares and
    multiplies by 21 numbers that \<^verbatim>\<open>parseInt\<close> read from digit strings; as long as every
    value stays below \<open>2^53\<close> these doubles are integers and the arithmetic on them is
    exact, and that is the range in which the model, which computes with mathematical
    integers, is the source. Outside it JavaScript rounds (\<^verbatim>\<open>9007199254740991 + 2\<close> is
    \<^verbatim>\<open>9007199254740992\<close>), reads more than 308 digits as \<^verbatim>\<open>Infinity\<close>, gets \<^verbatim>\<open>NaN\<close> from
    \<^verbatim>\<open>Infinity - Infinity\<close> and prints numbers from \<open>10^21\<close> on in exponent form. The
    predicate \<open>exact_numbers\<close> below keeps an input inside the exact range, and every
    statement about totals, margins, the status or the text of a number is made under it.
  \<^item> A raised \<^verbatim>\<open>TypeError\<close> is the left injection of a sum type.
\<close>

subsection \<open>Strings and numbers\<close>

type_synonym jsstring = "nat list"

definition asc :: "string \<Rightarrow> jsstring" where
  "asc s = map of_char s"

text \<open>
  Decimal rendering of an integer, as a template literal does it for an integer below
  \<open>10^21\<close> in absolute value.
\<close>

fun digits :: "nat \<Rightarrow> jsstring" where
  "digits n = (if n < 10 then [48 + n] else digits (n div 10) @ [48 + n mod 10])"

declare digits.simps [simp del]

definition num_str :: "int \<Rightarrow> jsstring" where
  "num_str i = (if i < 0 then 45 # digits (nat (- i)) else digits (nat i))"

text \<open>
  The characters matched by \<^verbatim>\<open>\s\<close> and removed by \<^verbatim>\<open>trim()\<close>: the white space and
  line terminator code points of ECMAScript.
\<close>

definition is_space :: "nat \<Rightarrow> bool" where
  "is_space c \<longleftrightarrow>
     c \<in> {9, 10, 11, 12, 13, 32, 160, 5760, 8232, 8233, 8239, 8287, 12288, 65279}
     \<or> (8192 \<le> c \<and> c \<le> 8202)"

text \<open>The characters matched by \<^verbatim>\<open>\d\<close>: the ASCII digits only.\<close>

definition is_digit :: "nat \<Rightarrow> bool" where
  "is_digit c \<longleftrightarrow> 48 \<le> c \<and> c \<le> 57"

definition trim :: "jsstring \<Rightarrow> jsstring" where
  "trim s = rev (dropWhile is_space (rev (dropWhile is_space s)))"

text \<open>\<^verbatim>\<open>scoreStr.replace(/\s+/g, "")\<close>: every run of white space is deleted.\<close>

definition remove_spaces :: "jsstring \<Rightarrow> jsstring" where
  "remove_spaces s = filter (\<lambda>c. \<not> is_space c) s"

text \<open>
  \<^verbatim>\<open>cleaned.match(/^(\d+)-(\d+)$/)\<close>: the two capture groups, or nothing. The first
  group is the longest run of digits at the start, since the hyphen is not a digit.
\<close>

definition match_score :: "jsstring \<Rightarrow> (jsstring \<times> jsstring) option" where
  "match_score s =
     (let a = takeWhile is_digit s in
      case dropWhile is_digit s of
        [] \<Rightarrow> None
      | c # b \<Rightarrow>
          if a \<noteq> [] \<and> c = 45 \<and> b \<noteq> [] \<and> list_all is_digit b then Some (a, b) else None)"

text \<open>
  \<^verbatim>\<open>parseInt(s, 10)\<close> on a string of digits: the number written by the digits in base
  ten. JavaScript returns this number when it is below \<open>2^53\<close>, and the nearest double
  otherwise.
\<close>

definition parseInt :: "jsstring \<Rightarrow> int" where
  "parseInt s = foldl (\<lambda>acc c. acc * 10 + (int c - 48)) 0 s"

subsection \<open>Values and errors\<close>

text \<open>
  The value stored under a sport key of the \<^verbatim>\<open>scores\<close> object. A missing key reads as
  \<^verbatim>\<open>undefined\<close>.
\<close>

datatype jsval = JUndefined | JNull | JStr jsstring | JNum int | JBool bool

datatype error = TypeError

fun truthy :: "jsval \<Rightarrow> bool" where
  "truthy JUndefined = False"
| "truthy JNull = False"
| "truthy (JStr s) = (s \<noteq> [])"
| "truthy (JNum n) = (n \<noteq> 0)"
| "truthy (JBool b) = b"

subsection \<open>parseScore\<close>

text \<open>
  A falsy value is "not played". A truthy value that is not a string has no
  \<^verbatim>\<open>trim\<close> method, and the call raises.
\<close>

fun parseScore :: "jsval \<Rightarrow> error + (int \<times> int) option" where
  "parseScore v =
     (if \<not> truthy v then Inr None
      else case v of
        JStr scoreStr \<Rightarrow>
          if trim scoreStr = [] \<or> scoreStr = asc ''-'' then Inr None
          else (case match_score (remove_spaces scoreStr) of
                  None \<Rightarrow> Inr None
                | Some (m1, m2) \<Rightarrow> Inr (Some (parseInt m1, parseInt m2)))
      | _ \<Rightarrow> Inl TypeError)"

declare parseScore.simps [simp del]

subsection \<open>Sports, result records\<close>

datatype sport = Tabletennis | Badminton | Squash | Tennis

definition SPORTS :: "sport list" where
  "SPORTS = [Tabletennis, Badminton, Squash, Tennis]"

fun SPORT_LABELS :: "sport \<Rightarrow> jsstring" where
  "SPORT_LABELS Tabletennis = asc ''Ping-pong''"
| "SPORT_LABELS Badminton = asc ''Badminton''"
| "SPORT_LABELS Squash = asc ''Squash''"
| "SPORT_LABELS Tennis = asc ''Tennis''"

definition MAX_POINTS_PER_SET :: int where
  "MAX_POINTS_PER_SET = 21"

text \<open>One value of \<^verbatim>\<open>result.sports\<close>; \<^verbatim>\<open>null\<close> scores are \<open>None\<close>.\<close>

record sport_entry =
  label :: jsstring
  played :: bool
  scoreA :: "int option"
  scoreB :: "int option"
  delta :: int

text \<open>The strings \<^verbatim>\<open>'in_progress'\<close>, \<^verbatim>\<open>'finished'\<close>, \<^verbatim>\<open>'gummiarm'\<close> of \<^verbatim>\<open>result.status\<close>.\<close>

datatype status = In_progress | Finished | Gummiarm

text \<open>The strings used as \<^verbatim>\<open>type\<close> of an analysis entry.\<close>

datatype entry_type =
  T_leader | T_tied | T_winner | T_gummiarm | T_clinched | T_scenario | T_gummiarm_scenario
  | T_skip_tennis | T_tennis_setup | T_clinch_possible | T_info | T_header

record analysis_entry =
  type :: entry_type
  message :: jsstring

record match_result =
  playerA :: jsstring
  playerB :: jsstring
  sports :: "sport \<rightharpoonup> sport_entry"
  totalA :: int
  totalB :: int
  currentDelta :: int
  sportsPlayed :: int
  sportsRemaining :: int
  maxRemainingPoints :: int
  status :: status
  winner :: "jsstring option"
  analysis :: "analysis_entry list"

text \<open>\<^verbatim>\<open>result.analysis.push({ type: t, message: m })\<close>\<close>

definition push :: "match_result \<Rightarrow> entry_type \<Rightarrow> jsstring \<Rightarrow> match_result" where
  "push result t m = result\<lparr>analysis := analysis result @ [\<lparr>type = t, message = m\<rparr>]\<rparr>"

text \<open>The non-ASCII characters of the message literals, as UTF-16 code units.\<close>

definition trophy :: jsstring where "trophy = [0xD83C, 0xDFC6]"
definition tennis_ball :: jsstring where "tennis_ball = [0xD83C, 0xDFBE]"
definition bar_chart :: jsstring where "bar_chart = [0xD83D, 0xDCCA]"
definition high_voltage :: jsstring where "high_voltage = [0x26A1]"
definition geq_sign :: jsstring where "geq_sign = [0x2265]"
definition leq_sign :: jsstring where "leq_sign = [0x2264]"
definition e_acute :: jsstring where "e_acute = [0xE9]"
definition e_grave :: jsstring where "e_grave = [0xE8]"
definition e_circ :: jsstring where "e_circ = [0xEA]"
definition a_grave :: jsstring where "a_grave = [0xE0]"
definition E_acute :: jsstring where "E_acute = [0xC9]"

text \<open>A value that may be \<^verbatim>\<open>null\<close>, interpolated into a template literal.\<close>

fun interpolate :: "jsstring option \<Rightarrow> jsstring" where
  "interpolate None = asc ''null''"
| "interpolate (Some s) = s"

subsection \<open>calculateScoreForGain\<close>

definition calculateScoreForGain :: "int \<Rightarrow> bool \<Rightarrow> jsstring option" where
  "calculateScoreForGain gain forB =
     (if gain > 21 \<or> gain < - 21 then None
      else let loserScore = max 0 (21 - gain) in
        if loserScore > 21 then None
        else if forB then Some (num_str loserScore @ asc ''-21'')
        else Some (asc ''21-'' @ num_str loserScore))"

text \<open>\<^verbatim>\<open>if (score) { push }\<close>: a string is truthy when it is not empty.\<close>

definition push_if_truthy ::
  "match_result \<Rightarrow> jsstring option \<Rightarrow> entry_type \<Rightarrow> (jsstring \<Rightarrow> jsstring) \<Rightarrow> match_result" where
  "push_if_truthy result score t msg =
     (case score of
        None \<Rightarrow> result
      | Some s \<Rightarrow> if s \<noteq> [] then push result t (msg s) else result)"

subsection \<open>analyzeLastSport\<close>

definition analyzeLastSport ::
  "match_result \<Rightarrow> jsstring \<Rightarrow> jsstring \<Rightarrow> int \<Rightarrow> jsstring \<Rightarrow> match_result" where
  "analyzeLastSport result pA pB delta' sportLabel =
     (if delta' > 0 then
        (if delta' > 21 then
           push result T_clinched
             (pA @ asc '' a d'' @ e_acute @ asc ''j'' @ a_grave @ asc '' gagn'' @ e_acute
              @ asc '' ! M'' @ e_circ @ asc ''me un 0-21 au '' @ sportLabel
              @ asc '' ne suffirait pas.'')
         else if delta' = 21 then
           push result T_scenario
             (pB @ asc '' doit faire 21-0 au '' @ sportLabel @ asc '' pour aller au Gummiarm'')
         else
           (let bMinWinScore = 21 - delta' - 1;
                gummiScore = 21 - delta';
                r1 = push result T_scenario
                  (trophy @ asc '' '' @ pB @ asc '' gagne si '' @ sportLabel @ asc '' ''
                   @ geq_sign @ asc '' 21-'' @ num_str bMinWinScore);
                r2 = push r1 T_scenario
                  (trophy @ asc '' '' @ pA @ asc '' gagne si '' @ sportLabel @ asc '' ''
                   @ leq_sign @ asc '' 21-'' @ num_str (bMinWinScore + 2) @ asc '' ou '' @ pA
                   @ asc '' gagne le set'')
            in if delta' \<le> 21 then
                 push r2 T_gummiarm_scenario
                   (high_voltage @ asc '' Gummiarm si '' @ sportLabel @ asc '' = 21-''
                    @ num_str gummiScore)
               else r2))
      else if delta' < 0 then
        (let absDelta = \<bar>delta'\<bar> in
         if absDelta > 21 then
           push result T_clinched
             (pB @ asc '' a d'' @ e_acute @ asc ''j'' @ a_grave @ asc '' gagn'' @ e_acute
              @ asc '' ! M'' @ e_circ @ asc ''me un 21-0 au '' @ sportLabel
              @ asc '' ne suffirait pas.'')
         else
           (let aMinWinScore = 21 - absDelta - 1;
                gummiScore = 21 - absDelta;
                r1 = push result T_scenario
                  (trophy @ asc '' '' @ pA @ asc '' gagne si '' @ sportLabel @ asc '' ''
                   @ geq_sign @ asc '' 21-'' @ num_str aMinWinScore);
                r2 = push r1 T_scenario
                  (trophy @ asc '' '' @ pB @ asc '' gagne si '' @ sportLabel @ asc '' ''
                   @ leq_sign @ asc '' 21-'' @ num_str (aMinWinScore + 2) @ asc '' ou '' @ pB
                   @ asc '' gagne le set'')
            in if absDelta \<le> 21 then
                 push r2 T_gummiarm_scenario
                   (high_voltage @ asc '' Gummiarm si '' @ sportLabel @ asc '' = 21-''
                    @ num_str gummiScore)
               else r2))
      else
        (let r1 = push result T_scenario
                    (asc ''Le gagnant du '' @ sportLabel @ asc '' remporte le match !'')
         in push r1 T_gummiarm_scenario
              (high_voltage @ asc '' Gummiarm si '' @ e_acute @ asc ''galit'' @ e_acute
               @ asc '' au '' @ sportLabel)))"

subsection \<open>analyzeBeforeTennis\<close>

text \<open>
  The source's constants \<^verbatim>\<open>maxSquashGain\<close>, \<^verbatim>\<open>minSquashGain\<close>, \<^verbatim>\<open>aNeededForLead\<close> and
  \<^verbatim>\<open>bNeededForLead\<close> and its parameter \<^verbatim>\<open>scores\<close> are never read; they are left out.
\<close>

definition skip_tennis_message :: "jsstring \<Rightarrow> jsstring \<Rightarrow> jsstring \<Rightarrow> jsstring" where
  "skip_tennis_message p sportLabel scoreNeeded =
     trophy @ asc '' '' @ p @ asc '' gagne SANS tennis si : '' @ sportLabel @ asc '' en ''
     @ scoreNeeded @ asc '' ou mieux''"

definition advantage_message :: "jsstring \<Rightarrow> int \<Rightarrow> jsstring \<Rightarrow> jsstring" where
  "advantage_message p n sportLabel =
     tennis_ball @ asc '' '' @ p @ asc '' va au tennis avec l'' @ [39]
     @ asc ''avantage si perd de '' @ num_str n @ asc '' pts ou moins au '' @ sportLabel"

definition must_gain_message :: "jsstring \<Rightarrow> int \<Rightarrow> jsstring \<Rightarrow> jsstring" where
  "must_gain_message p n sportLabel =
     tennis_ball @ asc '' '' @ p @ asc '' doit gagner +'' @ num_str n @ asc '' pts au ''
     @ sportLabel @ asc '' pour avoir l'' @ [39] @ asc ''avantage au tennis''"

definition analyzeBeforeTennis ::
  "match_result \<Rightarrow> jsstring \<Rightarrow> jsstring \<Rightarrow> int \<Rightarrow> jsstring \<Rightarrow> match_result" where
  "analyzeBeforeTennis result pA pB delta' sportLabel =
     (let r0 = push result T_header (bar_chart @ asc '' Analyse '' @ sportLabel @ asc '' :'');
          aGainNeededToSkipTennis = 22 - delta';
          bGainNeededToSkipTennis = - 22 - delta'
      in if delta' \<ge> 0 then
           (let r1 = (if aGainNeededToSkipTennis \<le> 21 then
                        push_if_truthy r0 (calculateScoreForGain aGainNeededToSkipTennis False)
                          T_skip_tennis (skip_tennis_message pA sportLabel)
                      else r0);
                r2 = (if delta' \<le> 21 then
                        (let bGainNeeded = \<bar>bGainNeededToSkipTennis\<bar> in
                         if bGainNeeded \<le> 21 then
                           push_if_truthy r1 (calculateScoreForGain bGainNeeded True)
                             T_skip_tennis (skip_tennis_message pB sportLabel)
                         else r1)
                      else r1)
            in if delta' > 0 then
                 push (push r2 T_tennis_setup (advantage_message pA (delta' - 1) sportLabel))
                   T_tennis_setup (must_gain_message pB (delta' + 1) sportLabel)
               else if delta' = 0 then
                 push r2 T_tennis_setup
                   (tennis_ball @ asc '' Le gagnant du '' @ sportLabel @ asc '' aura l'' @ [39]
                    @ asc ''avantage au tennis'')
               else r2)
         else
           (let absDelta = \<bar>delta'\<bar>;
                bGainForClinch = 22 - absDelta;
                r1 = (if bGainForClinch \<le> 21 then
                        push_if_truthy r0 (calculateScoreForGain bGainForClinch True)
                          T_skip_tennis (skip_tennis_message pB sportLabel)
                      else r0);
                aGainForClinch = 22 + absDelta;
                r2 = (if aGainForClinch \<le> 21 then
                        push_if_truthy r1 (calculateScoreForGain aGainForClinch False)
                          T_skip_tennis (skip_tennis_message pA sportLabel)
                      else r1)
            in push (push r2 T_tennis_setup (advantage_message pB (absDelta - 1) sportLabel))
                 T_tennis_setup (must_gain_message pA (absDelta + 1) sportLabel)))"

subsection \<open>analyzeMultipleSportsRemaining\<close>

definition clinch_possible_message ::
  "jsstring \<Rightarrow> jsstring \<Rightarrow> jsstring option \<Rightarrow> jsstring" where
  "clinch_possible_message p sportLabel score =
     p @ asc '' peut gagner apr'' @ e_grave @ asc ''s '' @ sportLabel @ asc '' avec un ''
     @ interpolate score @ asc '' ou mieux''"

definition analyzeMultipleSportsRemaining ::
  "match_result \<Rightarrow> jsstring \<Rightarrow> jsstring \<Rightarrow> int \<Rightarrow> jsstring \<Rightarrow> int \<Rightarrow> match_result" where
  "analyzeMultipleSportsRemaining result pA pB delta' sportLabel remaining =
     (let pointsAfterThis = (remaining - 1) * MAX_POINTS_PER_SET;
          r0 = push result T_info
                 (num_str remaining @ asc '' sports restants ('' @ num_str (pointsAfterThis + 21)
                  @ asc '' pts max)'');
          aGainToClinch = pointsAfterThis - delta' + 1;
          bGainToClinch = pointsAfterThis + delta' + 1;
          r1 = (if aGainToClinch \<le> 21 then
                  push r0 T_clinch_possible
                    (clinch_possible_message pA sportLabel
                       (calculateScoreForGain aGainToClinch False))
                else r0);
          r2 = (if bGainToClinch \<le> 21 then
                  push r1 T_clinch_possible
                    (clinch_possible_message pB sportLabel
                       (calculateScoreForGain bGainToClinch True))
                else r1)
      in if aGainToClinch > 21 \<and> bGainToClinch > 21 then
           push r2 T_info
             (asc ''Aucun ne peut gagner apr'' @ e_grave @ asc ''s '' @ sportLabel
              @ asc '' seul, le match continue'')
         else r2)"

subsection \<open>generateInProgressAnalysis\<close>

text \<open>
  \<^verbatim>\<open>SPORTS.findIndex((s) => !result.sports[s].played)\<close> followed by the lookup of
  \<^verbatim>\<open>nextSport\<close>: the first sport not played, \<^verbatim>\<open>null\<close> when there is none. Reading
  \<^verbatim>\<open>played\<close> of an entry that does not exist raises.
\<close>

fun nextSport :: "sport list \<Rightarrow> (sport \<rightharpoonup> sport_entry) \<Rightarrow> error + sport option" where
  "nextSport [] m = Inr None"
| "nextSport (s # ss) m =
     (case m s of
        None \<Rightarrow> Inl TypeError
      | Some e \<Rightarrow> if \<not> played e then Inr (Some s) else nextSport ss m)"

text \<open>
  The source's \<^verbatim>\<open>pointsAfterNext\<close>, \<^verbatim>\<open>pointsNeededAToWin\<close> and \<^verbatim>\<open>pointsNeededBToWin\<close> are
  computed and never read; they are left out.
\<close>

text \<open>The first entry: the current leader, or the tie (source lines 121 to 136).\<close>

definition current_leader :: "match_result \<Rightarrow> jsstring \<Rightarrow> jsstring \<Rightarrow> match_result" where
  "current_leader result pA pB =
     (let currentDelta' = currentDelta result in
      if currentDelta' > 0 then
        push result T_leader
          (pA @ asc '' m'' @ e_grave @ asc ''ne de '' @ num_str currentDelta'
           @ asc '' points ('' @ num_str (totalA result) @ asc ''-''
           @ num_str (totalB result) @ asc '')'')
      else if currentDelta' < 0 then
        push result T_leader
          (pB @ asc '' m'' @ e_grave @ asc ''ne de '' @ num_str \<bar>currentDelta'\<bar>
           @ asc '' points ('' @ num_str (totalB result) @ asc ''-''
           @ num_str (totalA result) @ asc '')'')
      else
        push result T_tied
          (E_acute @ asc ''galit'' @ e_acute @ asc '' parfaite ''
           @ num_str (totalA result) @ asc ''-'' @ num_str (totalB result)))"

definition generateInProgressAnalysis ::
  "match_result \<Rightarrow> jsstring \<Rightarrow> jsstring \<Rightarrow> error + match_result" where
  "generateInProgressAnalysis result pA pB =
     (let currentDelta' = currentDelta result;
          sportsRemaining' = sportsRemaining result;
          r0 = current_leader result pA pB
      in case nextSport SPORTS (sports r0) of
           Inl e \<Rightarrow> Inl e
         | Inr None \<Rightarrow> Inr r0
         | Inr (Some next) \<Rightarrow>
             (let nextLabel = SPORT_LABELS next in
              Inr (if sportsRemaining' = 1 then
                     analyzeLastSport r0 pA pB currentDelta' nextLabel
                   else if sportsRemaining' = 2 then
                     analyzeBeforeTennis r0 pA pB currentDelta' nextLabel
                   else
                     analyzeMultipleSportsRemaining r0 pA pB currentDelta' nextLabel
                       sportsRemaining')))"

subsection \<open>analyzeMatch\<close>

text \<open>
  One turn of the loop \<^verbatim>\<open>for (const sport of SPORTS)\<close>. The two additions are those of
  the source as long as the totals stay below \<open>2^53\<close>.
\<close>

definition parse_sport :: "(sport \<Rightarrow> jsval) \<Rightarrow> sport \<Rightarrow> match_result \<Rightarrow> error + match_result" where
  "parse_sport scores sport result =
     (case parseScore (scores sport) of
        Inl e \<Rightarrow> Inl e
      | Inr parsed \<Rightarrow>
          (let r1 = result\<lparr>sports := (sports result)(sport \<mapsto>
                      \<lparr>label = SPORT_LABELS sport,
                       played = (parsed \<noteq> None),
                       scoreA = (case parsed of None \<Rightarrow> None | Some p \<Rightarrow> Some (fst p)),
                       scoreB = (case parsed of None \<Rightarrow> None | Some p \<Rightarrow> Some (snd p)),
                       delta = (case parsed of None \<Rightarrow> 0 | Some p \<Rightarrow> fst p - snd p)\<rparr>)\<rparr>
           in case parsed of
                None \<Rightarrow> Inr r1
              | Some p \<Rightarrow>
                  Inr (r1\<lparr>totalA := totalA r1 + fst p,
                          totalB := totalB r1 + snd p,
                          sportsPlayed := sportsPlayed r1 + 1\<rparr>)))"

fun parse_sports :: "sport list \<Rightarrow> (sport \<Rightarrow> jsval) \<Rightarrow> match_result \<Rightarrow> error + match_result" where
  "parse_sports [] scores result = Inr result"
| "parse_sports (sport # rest) scores result =
     (case parse_sport scores sport result of
        Inl e \<Rightarrow> Inl e
      | Inr r \<Rightarrow> parse_sports rest scores r)"

text \<open>The object literal that \<^verbatim>\<open>analyzeMatch\<close> starts from.\<close>

definition initial_result :: "jsstring \<Rightarrow> jsstring \<Rightarrow> match_result" where
  "initial_result pA pB =
     \<lparr>playerA = pA, playerB = pB, sports = Map.empty, totalA = 0, totalB = 0,
      currentDelta = 0, sportsPlayed = 0, sportsRemaining = 0, maxRemainingPoints = 0,
      status = In_progress, winner = None, analysis = []\<rparr>"

text \<open>
  The two names are optional arguments: \<open>None\<close> is an argument left out (or
  \<^verbatim>\<open>undefined\<close>), for which the default of the parameter list is taken. The difference
  of the totals and its comparisons are those of the source as long as the totals are below
  \<open>2^53\<close>; with a total of \<^verbatim>\<open>Infinity\<close> the source can get the difference \<^verbatim>\<open>NaN\<close>, for
  which every comparison is false.
\<close>

definition analyzeMatch ::
  "(sport \<Rightarrow> jsval) \<Rightarrow> jsstring option \<Rightarrow> jsstring option \<Rightarrow> error + match_result" where
  "analyzeMatch scores argA argB =
     (let pA = (case argA of None \<Rightarrow> asc ''Joueur A'' | Some n \<Rightarrow> n);
          pB = (case argB of None \<Rightarrow> asc ''Joueur B'' | Some n \<Rightarrow> n);
          result = initial_result pA pB
      in case parse_sports SPORTS scores result of
           Inl e \<Rightarrow> Inl e
         | Inr r1 \<Rightarrow>
             (let r2 = r1\<lparr>sportsRemaining := 4 - sportsPlayed r1\<rparr>;
                  r3 = r2\<lparr>currentDelta := totalA r2 - totalB r2\<rparr>;
                  r4 = r3\<lparr>maxRemainingPoints := sportsRemaining r3 * MAX_POINTS_PER_SET\<rparr>
              in if sportsPlayed r4 = 4 then
                   (if currentDelta r4 = 0 then
                      Inr (push (r4\<lparr>status := Gummiarm\<rparr>) T_gummiarm
                             (E_acute @ asc ''galit'' @ e_acute @ asc '' parfaite ''
                              @ num_str (totalA r4) @ asc ''-'' @ num_str (totalB r4)
                              @ asc '' ! Direction le Gummiarm '' @ tennis_ball))
                    else
                      (let r5 = r4\<lparr>status := Finished\<rparr>;
                           r6 = r5\<lparr>winner := Some (if currentDelta r5 > 0 then pA else pB)\<rparr>;
                           winnerTotal = max (totalA r6) (totalB r6);
                           loserTotal = min (totalA r6) (totalB r6)
                       in Inr (push r6 T_winner
                                 (interpolate (winner r6) @ asc '' gagne '' @ num_str winnerTotal
                                  @ asc ''-'' @ num_str loserTotal @ asc '' (+''
                                  @ num_str \<bar>currentDelta r6\<bar> @ asc '' pts)''))))
                 else if \<bar>currentDelta r4\<bar> > maxRemainingPoints r4 then
                   (let r5 = r4\<lparr>status := Finished\<rparr>;
                        r6 = r5\<lparr>winner := Some (if currentDelta r5 > 0 then pA else pB)\<rparr>
                    in Inr (push r6 T_winner
                              (interpolate (winner r6) @ asc '' a d'' @ e_acute @ asc ''j''
                               @ a_grave @ asc '' gagn'' @ e_acute @ asc '' ! Avance de ''
                               @ num_str \<bar>currentDelta r6\<bar> @ asc '' pts, seulement ''
                               @ num_str (maxRemainingPoints r6)
                               @ asc '' pts restants possibles.'')))
                 else generateInProgressAnalysis (r4\<lparr>status := In_progress\<rparr>) pA pB))"

subsection \<open>Inputs and what was parsed from them\<close>

text \<open>A score the engine is meant to receive: a string, or nothing at all.\<close>

fun string_or_absent :: "jsval \<Rightarrow> bool" where
  "string_or_absent (JStr s) = True"
| "string_or_absent JUndefined = True"
| "string_or_absent v = False"

text \<open>
  A sport is played when \<^verbatim>\<open>parseScore\<close> returned a pair for it; its points are the two
  components of the pair, and nothing when the sport is not played.
\<close>

definition is_played :: "(sport \<Rightarrow> jsval) \<Rightarrow> sport \<Rightarrow> bool" where
  "is_played scores s = (case parseScore (scores s) of Inr (Some p) \<Rightarrow> True | _ \<Rightarrow> False)"

definition pointsA :: "(sport \<Rightarrow> jsval) \<Rightarrow> sport \<Rightarrow> int" where
  "pointsA scores s = (case parseScore (scores s) of Inr (Some p) \<Rightarrow> fst p | _ \<Rightarrow> 0)"

definition pointsB :: "(sport \<Rightarrow> jsval) \<Rightarrow> sport \<Rightarrow> int" where
  "pointsB scores s = (case parseScore (scores s) of Inr (Some p) \<Rightarrow> snd p | _ \<Rightarrow> 0)"

definition played_sports :: "(sport \<Rightarrow> jsval) \<Rightarrow> sport list" where
  "played_sports scores = filter (is_played scores) SPORTS"

text \<open>
  The inputs on which the arithmetic of the source is exact: every score that parsed is
  below \<open>2^51\<close>. Then \<^verbatim>\<open>parseInt\<close> returns the number written, the four scores of a
  player add up to less than \<open>2^53\<close>, so that the totals, their difference and everything
  computed from it are integers without rounding, and every number is printed in plain
  digits. The scores of a real match, which end at 21 or a little above, are far inside.
\<close>

definition exact_numbers :: "(sport \<Rightarrow> jsval) \<Rightarrow> bool" where
  "exact_numbers scores =
     list_all (\<lambda>s. pointsA scores s < 2 ^ 51 \<and> pointsB scores s < 2 ^ 51) SPORTS"

subsection \<open>The form of a score in the specification\<close>

text \<open>
  The specification describes the accepted strings as digits, a separator, digits, with
  optional white space around the separator. This predicate follows those words: white
  space is allowed next to the hyphen and nowhere else.
\<close>

definition spec_score_form :: "jsstring \<Rightarrow> bool" where
  "spec_score_form s =
     (let a = takeWhile is_digit s in
      case dropWhile is_space (dropWhile is_digit s) of
        [] \<Rightarrow> False
      | c # r \<Rightarrow>
          (let b = dropWhile is_space r in
           c = 45 \<and> a \<noteq> [] \<and> b \<noteq> [] \<and> list_all is_digit b))"

subsection \<open>Inputs used as examples\<close>

text \<open>The object \<^verbatim>\<open>{ tabletennis: t, badminton: b, squash: q, tennis: e }\<close>.\<close>

fun scores_object :: "jsval \<Rightarrow> jsval \<Rightarrow> jsval \<Rightarrow> jsval \<Rightarrow> sport \<Rightarrow> jsval" where
  "scores_object t b q e Tabletennis = t"
| "scores_object t b q e Badminton = b"
| "scores_object t b q e Squash = q"
| "scores_object t b q e Tennis = e"




text \<open>Three sets won 21-0 by player A: 63 points ahead with 21 left to play.\<close>

definition three_sets_to_nil :: "sport \<Rightarrow> jsval" where
  "three_sets_to_nil = scores_object (JStr (asc ''21-0'')) (JStr (asc ''21-0''))
     (JStr (asc ''21-0'')) JUndefined"

text \<open>A single set, tied at 21, written with spaces.\<close>

definition one_tied_set :: "sport \<Rightarrow> jsval" where
  "one_tied_set = scores_object (JStr (asc ''21 - 21'')) JUndefined JUndefined JUndefined"


text \<open>Two sets, 36 points each.\<close>

definition two_sets_level :: "sport \<Rightarrow> jsval" where
  "two_sets_level = scores_object (JStr (asc ''21-15'')) (JStr (asc ''15-21''))
     JUndefined JUndefined"

text \<open>Three sets, player A ahead by exactly 21 points, 61 to 40.\<close>

definition A_leads_by_21 :: "sport \<Rightarrow> jsval" where
  "A_leads_by_21 = scores_object (JStr (asc ''21-0'')) (JStr (asc ''19-21''))
     (JStr (asc ''21-19'')) JUndefined"

text \<open>The same three sets with the players exchanged: player B ahead by exactly 21.\<close>

definition B_leads_by_21 :: "sport \<Rightarrow> jsval" where
  "B_leads_by_21 = scores_object (JStr (asc ''0-21'')) (JStr (asc ''21-19''))
     (JStr (asc ''19-21'')) JUndefined"

text \<open>A score above 21 and three malformed strings, the last with an en dash.\<close>

definition odd_inputs :: "sport \<Rightarrow> jsval" where
  "odd_inputs = scores_object (JStr (asc ''100-0'')) (JStr (asc ''abc'')) (JStr (asc ''-''))
     (JStr (asc ''21'' @ [0x2013]))"

section \<open>Properties of the engine\<close>

subsection \<open>The parsing loop\<close>

lemma parseScore_string: "string_or_absent v \<Longrightarrow> \<exists>p. parseScore v = Inr p"
  by (cases v) (auto simp: parseScore.simps split: option.splits)

lemma parse_sport_Inr:
  "parseScore (sc s) = Inr p \<Longrightarrow> \<exists>r'. parse_sport sc s r = Inr r'"
  by (cases p) (simp_all add: parse_sport_def Let_def)

lemma parse_sports_Inr:
  "\<forall>s\<in>set ss. \<exists>p. parseScore (sc s) = Inr p \<Longrightarrow> \<exists>r'. parse_sports ss sc r = Inr r'"
proof (induction ss arbitrary: r)
  case Nil
  show ?case by simp
next
  case (Cons s ss)
  then obtain p where "parseScore (sc s) = Inr p" by auto
  then obtain r1 where "parse_sport sc s r = Inr r1" using parse_sport_Inr by blast
  with Cons show ?case by simp
qed

lemma parse_sport_fields:
  assumes "parse_sport sc s r = Inr r'"
  shows "playerA r' = playerA r" "playerB r' = playerB r"
    "totalA r' = totalA r + pointsA sc s" "totalB r' = totalB r + pointsB sc s"
    "sportsPlayed r' = sportsPlayed r + (if is_played sc s then 1 else 0)"
    "currentDelta r' = currentDelta r" "sportsRemaining r' = sportsRemaining r"
    "maxRemainingPoints r' = maxRemainingPoints r" "status r' = status r"
    "winner r' = winner r" "analysis r' = analysis r"
  using assms
  by (auto simp: parse_sport_def Let_def pointsA_def pointsB_def is_played_def
      split: sum.splits option.splits)

lemma parse_sport_sports:
  assumes "parse_sport sc s r = Inr r'"
  shows "sports r' s = Some
           \<lparr>label = SPORT_LABELS s, played = is_played sc s,
            scoreA = (if is_played sc s then Some (pointsA sc s) else None),
            scoreB = (if is_played sc s then Some (pointsB sc s) else None),
            delta = pointsA sc s - pointsB sc s\<rparr>"
    and "t \<noteq> s \<Longrightarrow> sports r' t = sports r t"
  using assms
  by (auto simp: parse_sport_def Let_def is_played_def pointsA_def pointsB_def
      split: sum.splits option.splits)

lemma parse_sports_fields:
  assumes "parse_sports ss sc r = Inr r'"
  shows "playerA r' = playerA r \<and> playerB r' = playerB r
    \<and> totalA r' = totalA r + sum_list (map (pointsA sc) ss)
    \<and> totalB r' = totalB r + sum_list (map (pointsB sc) ss)
    \<and> sportsPlayed r' = sportsPlayed r + int (length (filter (is_played sc) ss))
    \<and> currentDelta r' = currentDelta r \<and> sportsRemaining r' = sportsRemaining r
    \<and> maxRemainingPoints r' = maxRemainingPoints r \<and> status r' = status r
    \<and> winner r' = winner r \<and> analysis r' = analysis r"
  using assms
proof (induction ss arbitrary: r)
  case Nil
  then show ?case by simp
next
  case (Cons s ss)
  from Cons.prems obtain r1 where s1: "parse_sport sc s r = Inr r1"
    and s2: "parse_sports ss sc r1 = Inr r'"
    by (auto split: sum.splits)
  show ?case
    using Cons.IH [OF s2] parse_sport_fields [OF s1] by simp
qed

lemma parse_sports_sports:
  assumes "parse_sports ss sc r = Inr r'"
  shows "(s \<in> set ss \<longrightarrow> sports r' s = Some
           \<lparr>label = SPORT_LABELS s, played = is_played sc s,
            scoreA = (if is_played sc s then Some (pointsA sc s) else None),
            scoreB = (if is_played sc s then Some (pointsB sc s) else None),
            delta = pointsA sc s - pointsB sc s\<rparr>)
       \<and> (s \<notin> set ss \<longrightarrow> sports r' s = sports r s)"
  using assms
proof (induction ss arbitrary: r)
  case Nil
  then show ?case by simp
next
  case (Cons t ss)
  from Cons.prems obtain r1 where s1: "parse_sport sc t r = Inr r1"
    and s2: "parse_sports ss sc r1 = Inr r'"
    by (auto split: sum.splits)
  show ?case
    using Cons.IH [OF s2] parse_sport_sports [OF s1] by (cases "s = t") auto
qed

lemma nextSport_find:
  "\<forall>s\<in>set ss. \<exists>e. m s = Some e \<and> played e = P s \<Longrightarrow>
   nextSport ss m = Inr (find (\<lambda>s. \<not> P s) ss)"
  by (induction ss) auto

subsection \<open>Only the analysis changes after the classification\<close>

lemma push_fields [simp]:
  "playerA (push r t m) = playerA r" "playerB (push r t m) = playerB r"
  "sports (push r t m) = sports r" "totalA (push r t m) = totalA r"
  "totalB (push r t m) = totalB r" "currentDelta (push r t m) = currentDelta r"
  "sportsPlayed (push r t m) = sportsPlayed r" "sportsRemaining (push r t m) = sportsRemaining r"
  "maxRemainingPoints (push r t m) = maxRemainingPoints r" "status (push r t m) = status r"
  "winner (push r t m) = winner r"
  "analysis (push r t m) = analysis r @ [\<lparr>type = t, message = m\<rparr>]"
  by (simp_all add: push_def)

lemma push_if_truthy_fields [simp]:
  "playerA (push_if_truthy r x t f) = playerA r" "playerB (push_if_truthy r x t f) = playerB r"
  "sports (push_if_truthy r x t f) = sports r" "totalA (push_if_truthy r x t f) = totalA r"
  "totalB (push_if_truthy r x t f) = totalB r"
  "currentDelta (push_if_truthy r x t f) = currentDelta r"
  "sportsPlayed (push_if_truthy r x t f) = sportsPlayed r"
  "sportsRemaining (push_if_truthy r x t f) = sportsRemaining r"
  "maxRemainingPoints (push_if_truthy r x t f) = maxRemainingPoints r"
  "status (push_if_truthy r x t f) = status r" "winner (push_if_truthy r x t f) = winner r"
  by (simp_all add: push_if_truthy_def split: option.splits)

lemma current_leader_fields [simp]:
  "playerA (current_leader r pA pB) = playerA r" "playerB (current_leader r pA pB) = playerB r"
  "sports (current_leader r pA pB) = sports r" "totalA (current_leader r pA pB) = totalA r"
  "totalB (current_leader r pA pB) = totalB r"
  "currentDelta (current_leader r pA pB) = currentDelta r"
  "sportsPlayed (current_leader r pA pB) = sportsPlayed r"
  "sportsRemaining (current_leader r pA pB) = sportsRemaining r"
  "maxRemainingPoints (current_leader r pA pB) = maxRemainingPoints r"
  "status (current_leader r pA pB) = status r" "winner (current_leader r pA pB) = winner r"
  by (simp_all add: current_leader_def Let_def)

lemma analyzeLastSport_fields [simp]:
  "playerA (analyzeLastSport r pA pB d l) = playerA r"
  "playerB (analyzeLastSport r pA pB d l) = playerB r"
  "sports (analyzeLastSport r pA pB d l) = sports r"
  "totalA (analyzeLastSport r pA pB d l) = totalA r"
  "totalB (analyzeLastSport r pA pB d l) = totalB r"
  "currentDelta (analyzeLastSport r pA pB d l) = currentDelta r"
  "sportsPlayed (analyzeLastSport r pA pB d l) = sportsPlayed r"
  "sportsRemaining (analyzeLastSport r pA pB d l) = sportsRemaining r"
  "maxRemainingPoints (analyzeLastSport r pA pB d l) = maxRemainingPoints r"
  "status (analyzeLastSport r pA pB d l) = status r"
  "winner (analyzeLastSport r pA pB d l) = winner r"
  by (simp_all add: analyzeLastSport_def Let_def)

lemma analyzeBeforeTennis_fields [simp]:
  "playerA (analyzeBeforeTennis r pA pB d l) = playerA r"
  "playerB (analyzeBeforeTennis r pA pB d l) = playerB r"
  "sports (analyzeBeforeTennis r pA pB d l) = sports r"
  "totalA (analyzeBeforeTennis r pA pB d l) = totalA r"
  "totalB (analyzeBeforeTennis r pA pB d l) = totalB r"
  "currentDelta (analyzeBeforeTennis r pA pB d l) = currentDelta r"
  "sportsPlayed (analyzeBeforeTennis r pA pB d l) = sportsPlayed r"
  "sportsRemaining (analyzeBeforeTennis r pA pB d l) = sportsRemaining r"
  "maxRemainingPoints (analyzeBeforeTennis r pA pB d l) = maxRemainingPoints r"
  "status (analyzeBeforeTennis r pA pB d l) = status r"
  "winner (analyzeBeforeTennis r pA pB d l) = winner r"
  by (simp_all add: analyzeBeforeTennis_def Let_def)

lemma analyzeMultipleSportsRemaining_fields [simp]:
  "playerA (analyzeMultipleSportsRemaining r pA pB d l n) = playerA r"
  "playerB (analyzeMultipleSportsRemaining r pA pB d l n) = playerB r"
  "sports (analyzeMultipleSportsRemaining r pA pB d l n) = sports r"
  "totalA (analyzeMultipleSportsRemaining r pA pB d l n) = totalA r"
  "totalB (analyzeMultipleSportsRemaining r pA pB d l n) = totalB r"
  "currentDelta (analyzeMultipleSportsRemaining r pA pB d l n) = currentDelta r"
  "sportsPlayed (analyzeMultipleSportsRemaining r pA pB d l n) = sportsPlayed r"
  "sportsRemaining (analyzeMultipleSportsRemaining r pA pB d l n) = sportsRemaining r"
  "maxRemainingPoints (analyzeMultipleSportsRemaining r pA pB d l n) = maxRemainingPoints r"
  "status (analyzeMultipleSportsRemaining r pA pB d l n) = status r"
  "winner (analyzeMultipleSportsRemaining r pA pB d l n) = winner r"
  by (simp_all add: analyzeMultipleSportsRemaining_def Let_def)

lemma generate_fields:
  assumes "generateInProgressAnalysis r pA pB = Inr r'"
  shows "playerA r' = playerA r" "playerB r' = playerB r" "sports r' = sports r"
    "totalA r' = totalA r" "totalB r' = totalB r" "currentDelta r' = currentDelta r"
    "sportsPlayed r' = sportsPlayed r" "sportsRemaining r' = sportsRemaining r"
    "maxRemainingPoints r' = maxRemainingPoints r" "status r' = status r"
    "winner r' = winner r"
  using assms
  by (auto simp: generateInProgressAnalysis_def Let_def split: sum.splits option.splits)

lemma generate_frame:
  assumes "generateInProgressAnalysis r pA pB = Inr r'"
  shows "playerA r' = playerA r \<and> playerB r' = playerB r \<and> sports r' = sports r
    \<and> totalA r' = totalA r \<and> totalB r' = totalB r \<and> currentDelta r' = currentDelta r
    \<and> sportsPlayed r' = sportsPlayed r \<and> sportsRemaining r' = sportsRemaining r
    \<and> maxRemainingPoints r' = maxRemainingPoints r \<and> status r' = status r
    \<and> winner r' = winner r"
  using generate_fields [OF assms] by simp

lemma analyzeMatch_aggregate:
  assumes "analyzeMatch sc a b = Inr r"
  shows "playerA r = (case a of None \<Rightarrow> asc ''Joueur A'' | Some n \<Rightarrow> n)"
    "playerB r = (case b of None \<Rightarrow> asc ''Joueur B'' | Some n \<Rightarrow> n)"
    "totalA r = sum_list (map (pointsA sc) SPORTS)"
    "totalB r = sum_list (map (pointsB sc) SPORTS)"
    "sportsPlayed r = int (length (played_sports sc))"
    "sportsRemaining r = 4 - sportsPlayed r"
    "currentDelta r = totalA r - totalB r"
    "maxRemainingPoints r = sportsRemaining r * 21"
  using assms unfolding analyzeMatch_def Let_def played_sports_def MAX_POINTS_PER_SET_def initial_result_def
  by (auto split: sum.splits if_splits dest!: parse_sports_fields generate_frame)

lemma analyzeMatch_classify:
  assumes "analyzeMatch sc a b = Inr r"
  shows "sportsPlayed r = 4 \<Longrightarrow> currentDelta r = 0 \<Longrightarrow> status r = Gummiarm \<and> winner r = None"
    "sportsPlayed r = 4 \<Longrightarrow> currentDelta r \<noteq> 0 \<Longrightarrow>
       status r = Finished \<and> winner r = Some (if currentDelta r > 0 then playerA r else playerB r)"
    "sportsPlayed r \<noteq> 4 \<Longrightarrow> \<bar>currentDelta r\<bar> > maxRemainingPoints r \<Longrightarrow>
       status r = Finished \<and> winner r = Some (if currentDelta r > 0 then playerA r else playerB r)"
    "sportsPlayed r \<noteq> 4 \<Longrightarrow> \<bar>currentDelta r\<bar> \<le> maxRemainingPoints r \<Longrightarrow>
       status r = In_progress \<and> winner r = None"
  using assms unfolding analyzeMatch_def Let_def MAX_POINTS_PER_SET_def initial_result_def
  by (auto split: sum.splits if_splits dest!: parse_sports_fields generate_frame)

subsection \<open>The run of analyzeMatch\<close>

lemma generate_returns:
  assumes "\<forall>s\<in>set SPORTS. \<exists>e. sports r s = Some e \<and> played e = P s"
  shows "\<exists>r'. generateInProgressAnalysis r pA pB = Inr r'"
  using nextSport_find [OF assms]
  by (simp add: generateInProgressAnalysis_def Let_def split: option.splits)

lemma analyzeMatch_returns:
  assumes "\<forall>s. \<exists>p. parseScore (sc s) = Inr p"
  shows "\<exists>r. analyzeMatch sc a b = Inr r"
proof -
  let ?pA = "case a of None \<Rightarrow> asc ''Joueur A'' | Some n \<Rightarrow> n"
  let ?pB = "case b of None \<Rightarrow> asc ''Joueur B'' | Some n \<Rightarrow> n"
  from assms obtain r1 where r1: "parse_sports SPORTS sc (initial_result ?pA ?pB) = Inr r1"
    using parse_sports_Inr [of SPORTS sc] by blast
  have m: "\<forall>s\<in>set SPORTS. \<exists>e. sports r1 s = Some e \<and> played e = is_played sc s"
    using parse_sports_sports [OF r1] by simp
  show ?thesis
    unfolding analyzeMatch_def Let_def
    by (simp add: r1 generate_returns [where P = "is_played sc"] m)
qed

lemma analyzeMatch_in_progress:
  assumes run: "analyzeMatch sc a b = Inr r" and st: "status r = In_progress"
  shows "generateInProgressAnalysis (r\<lparr>analysis := []\<rparr>) (playerA r) (playerB r) = Inr r"
    and "nextSport SPORTS (sports r) = Inr (find (\<lambda>s. \<not> is_played sc s) SPORTS)"
proof -
  let ?pA = "case a of None \<Rightarrow> asc ''Joueur A'' | Some n \<Rightarrow> n"
  let ?pB = "case b of None \<Rightarrow> asc ''Joueur B'' | Some n \<Rightarrow> n"
  from run obtain r1 where r1: "parse_sports SPORTS sc (initial_result ?pA ?pB) = Inr r1"
    by (auto simp: analyzeMatch_def Let_def split: sum.splits)
  let ?r4 = "r1\<lparr>sportsRemaining := 4 - sportsPlayed r1,
                 currentDelta := totalA r1 - totalB r1,
                 maxRemainingPoints := (4 - sportsPlayed r1) * MAX_POINTS_PER_SET,
                 status := In_progress\<rparr>"
  from run st have g: "generateInProgressAnalysis ?r4 ?pA ?pB = Inr r"
    by (auto simp: analyzeMatch_def Let_def r1 split: if_splits)
  note f1 = parse_sports_fields [OF r1]
  note f2 = generate_fields [OF g]
  have eq: "r\<lparr>analysis := []\<rparr> = ?r4"
    by (rule match_result.equality) (simp_all add: f1 f2 initial_result_def)
  have names: "playerA r = ?pA" "playerB r = ?pB"
    by (simp_all add: f1 f2 initial_result_def)
  show "generateInProgressAnalysis (r\<lparr>analysis := []\<rparr>) (playerA r) (playerB r) = Inr r"
    unfolding eq names by (rule g)
  have m: "\<forall>s\<in>set SPORTS. \<exists>e. sports r s = Some e \<and> played e = is_played sc s"
    using parse_sports_sports [OF r1] f2(3) by simp
  show "nextSport SPORTS (sports r) = Inr (find (\<lambda>s. \<not> is_played sc s) SPORTS)"
    by (rule nextSport_find [OF m])
qed

lemma unplayed_exists:
  "int (length (played_sports sc)) \<noteq> 4 \<Longrightarrow> \<exists>s. find (\<lambda>s. \<not> is_played sc s) SPORTS = Some s"
  by (auto simp: played_sports_def SPORTS_def split: if_splits)

lemma analyzeMatch_sports:
  assumes "analyzeMatch sc a b = Inr r"
  shows "sports r s = Some
           \<lparr>label = SPORT_LABELS s, played = is_played sc s,
            scoreA = (if is_played sc s then Some (pointsA sc s) else None),
            scoreB = (if is_played sc s then Some (pointsB sc s) else None),
            delta = pointsA sc s - pointsB sc s\<rparr>"
proof -
  have all: "s \<in> set SPORTS"
    by (cases s) (simp_all add: SPORTS_def)
  show ?thesis
    using assms all unfolding analyzeMatch_def Let_def
    by (auto split: sum.splits if_splits dest!: parse_sports_sports [where s = s] generate_frame)
qed

lemma sum_played:
  "(\<And>s. \<not> P s \<Longrightarrow> f s = (0::int)) \<Longrightarrow> sum_list (map f (filter P ss)) = sum_list (map f ss)"
  by (induction ss) auto

lemma points_unplayed: "\<not> is_played sc s \<Longrightarrow> pointsA sc s = 0 \<and> pointsB sc s = 0"
  by (auto simp: is_played_def pointsA_def pointsB_def split: sum.splits option.splits)

lemma played_le_4: "int (length (played_sports sc)) \<le> 4"
proof -
  have "length (filter (is_played sc) SPORTS) \<le> length SPORTS"
    by (rule length_filter_le)
  then show ?thesis
    by (simp add: played_sports_def SPORTS_def)
qed

lemma analyzeMatch_terminal:
  assumes "analyzeMatch sc a b = Inr r" and "status r \<noteq> In_progress"
  shows "\<exists>m. analysis r =
    [\<lparr>type = (if status r = Gummiarm then T_gummiarm else T_winner), message = m\<rparr>]"
  using assms unfolding analyzeMatch_def Let_def initial_result_def
  by (auto split: sum.splits if_splits dest!: parse_sports_fields generate_frame)

lemma winner_cases:
  assumes "analyzeMatch sc a b = Inr r"
  shows "winner r = None \<or> winner r = Some (playerA r) \<or> winner r = Some (playerB r)"
proof -
  note cls = analyzeMatch_classify [OF assms]
  consider "sportsPlayed r = 4" "currentDelta r = 0" | "sportsPlayed r = 4" "currentDelta r \<noteq> 0"
    | "sportsPlayed r \<noteq> 4" "\<bar>currentDelta r\<bar> > maxRemainingPoints r"
    | "sportsPlayed r \<noteq> 4" "\<bar>currentDelta r\<bar> \<le> maxRemainingPoints r"
    by linarith
  then show ?thesis
  proof cases
    case 1
    then show ?thesis using cls(1) by simp
  next
    case 2
    then show ?thesis using cls(2) by simp
  next
    case 3
    then show ?thesis using cls(3) by simp
  next
    case 4
    then show ?thesis using cls(4) by simp
  qed
qed

subsection \<open>What each stage of the scenario generator emits\<close>

lemma current_leader_analysis:
  "analysis (current_leader r pA pB) = analysis r @
     [\<lparr>type = (if currentDelta r = 0 then T_tied else T_leader),
       message =
         (if currentDelta r = 0 then
            E_acute @ asc ''galit'' @ e_acute @ asc '' parfaite '' @ num_str (totalA r)
            @ asc ''-'' @ num_str (totalB r)
          else
            (if currentDelta r > 0 then pA else pB) @ asc '' m'' @ e_grave @ asc ''ne de ''
            @ num_str \<bar>currentDelta r\<bar> @ asc '' points (''
            @ num_str (if currentDelta r > 0 then totalA r else totalB r) @ asc ''-''
            @ num_str (if currentDelta r > 0 then totalB r else totalA r) @ asc '')'')\<rparr>]"
  by (simp add: current_leader_def Let_def)


lemma analyzeLastSport_A_leads_21:
  "analysis (analyzeLastSport r pA pB 21 l) = analysis r @
     [\<lparr>type = T_scenario,
       message = pB @ asc '' doit faire 21-0 au '' @ l @ asc '' pour aller au Gummiarm''\<rparr>]"
  by (simp add: analyzeLastSport_def)

lemma analyzeLastSport_B_leads_21:
  "analysis (analyzeLastSport r pA pB (- 21) l) = analysis r @
     [\<lparr>type = T_scenario,
       message = trophy @ asc '' '' @ pA @ asc '' gagne si '' @ l
         @ asc '' '' @ geq_sign @ asc '' 21-'' @ num_str (- 1)\<rparr>,
      \<lparr>type = T_scenario,
       message = trophy @ asc '' '' @ pB @ asc '' gagne si '' @ l
         @ asc '' '' @ leq_sign @ asc '' 21-'' @ num_str 1 @ asc '' ou ''
         @ pB @ asc '' gagne le set''\<rparr>,
      \<lparr>type = T_gummiarm_scenario,
       message = high_voltage @ asc '' Gummiarm si '' @ l @ asc '' = 21-'' @ num_str 0\<rparr>]"
  by (simp add: analyzeLastSport_def Let_def)

lemma analyzeBeforeTennis_level:
  "analysis (analyzeBeforeTennis r pA pB 0 l) = analysis r @
     [\<lparr>type = T_header, message = bar_chart @ asc '' Analyse '' @ l @ asc '' :''\<rparr>,
      \<lparr>type = T_tennis_setup,
       message = tennis_ball @ asc '' Le gagnant du '' @ l @ asc '' aura l'' @ [39]
         @ asc ''avantage au tennis''\<rparr>]"
  by (simp add: analyzeBeforeTennis_def Let_def)


lemma entry_push_if_truthy:
  "e \<in> set (analysis (push_if_truthy r x t f)) \<Longrightarrow> type e = t \<or> e \<in> set (analysis r)"
  by (auto simp: push_if_truthy_def split: option.splits if_splits)

lemma entry_current_leader:
  "e \<in> set (analysis (current_leader r pA pB)) \<Longrightarrow>
   type e \<in> {T_leader, T_tied} \<or> e \<in> set (analysis r)"
  by (auto simp: current_leader_def Let_def split: if_splits)

lemma entry_analyzeLastSport:
  "\<bar>d\<bar> \<le> 21 \<Longrightarrow> e \<in> set (analysis (analyzeLastSport r pA pB d l)) \<Longrightarrow>
   type e \<in> {T_scenario, T_gummiarm_scenario} \<or> e \<in> set (analysis r)"
  by (auto simp: analyzeLastSport_def Let_def split: if_splits)

lemma entry_analyzeLastSport_decided:
  "21 < \<bar>d\<bar> \<Longrightarrow> \<exists>e \<in> set (analysis (analyzeLastSport r pA pB d l)). type e = T_clinched"
  by (auto simp: analyzeLastSport_def Let_def)

lemma entry_analyzeBeforeTennis:
  "e \<in> set (analysis (analyzeBeforeTennis r pA pB d l)) \<Longrightarrow>
   type e \<in> {T_header, T_skip_tennis, T_tennis_setup} \<or> e \<in> set (analysis r)"
  by (auto simp: analyzeBeforeTennis_def Let_def split: if_splits dest!: entry_push_if_truthy)

lemma entry_analyzeMultipleSportsRemaining:
  "e \<in> set (analysis (analyzeMultipleSportsRemaining r pA pB d l n)) \<Longrightarrow>
   type e \<in> {T_info, T_clinch_possible} \<or> e \<in> set (analysis r)"
  by (auto simp: analyzeMultipleSportsRemaining_def Let_def split: if_splits)

subsection \<open>The stage that runs for a match in progress\<close>

lemma in_progress_stage:
  assumes run: "analyzeMatch sc a b = Inr r" and st: "status r = In_progress"
  shows "sportsRemaining r = 1 \<Longrightarrow>
      \<exists>s. find (\<lambda>s. \<not> is_played sc s) SPORTS = Some s \<and>
        analysis r = analysis
          (analyzeLastSport (current_leader (r\<lparr>analysis := []\<rparr>) (playerA r) (playerB r))
             (playerA r) (playerB r) (currentDelta r) (SPORT_LABELS s))"
    and "sportsRemaining r = 2 \<Longrightarrow>
      \<exists>s. find (\<lambda>s. \<not> is_played sc s) SPORTS = Some s \<and>
        analysis r = analysis
          (analyzeBeforeTennis (current_leader (r\<lparr>analysis := []\<rparr>) (playerA r) (playerB r))
             (playerA r) (playerB r) (currentDelta r) (SPORT_LABELS s))"
    and "3 \<le> sportsRemaining r \<Longrightarrow>
      \<exists>s. find (\<lambda>s. \<not> is_played sc s) SPORTS = Some s \<and>
        analysis r = analysis
          (analyzeMultipleSportsRemaining
             (current_leader (r\<lparr>analysis := []\<rparr>) (playerA r) (playerB r))
             (playerA r) (playerB r) (currentDelta r) (SPORT_LABELS s) (sportsRemaining r))"
    and "1 \<le> sportsRemaining r" and "\<bar>currentDelta r\<bar> \<le> sportsRemaining r * 21"
proof -
  note agg = analyzeMatch_aggregate [OF run]
  note cls = analyzeMatch_classify [OF run]
  have np: "sportsPlayed r \<noteq> 4"
    using cls(1,2) st by (cases "currentDelta r = 0") auto
  then obtain s where s: "find (\<lambda>s. \<not> is_played sc s) SPORTS = Some s"
    using unplayed_exists [of sc] agg(5) by auto
  have le: "sportsPlayed r \<le> 4"
    using played_le_4 [of sc] agg(5) by simp
  show "1 \<le> sportsRemaining r"
    using np le agg(6) by simp
  show "\<bar>currentDelta r\<bar> \<le> sportsRemaining r * 21"
    using cls(3) [OF np] st agg(8) by (cases "\<bar>currentDelta r\<bar> > maxRemainingPoints r") auto
  note ip = analyzeMatch_in_progress [OF run st]
  let ?r0 = "current_leader (r\<lparr>analysis := []\<rparr>) (playerA r) (playerB r)"
  let ?last = "analyzeLastSport ?r0 (playerA r) (playerB r) (currentDelta r) (SPORT_LABELS s)"
  let ?before = "analyzeBeforeTennis ?r0 (playerA r) (playerB r) (currentDelta r) (SPORT_LABELS s)"
  let ?multiple = "analyzeMultipleSportsRemaining ?r0 (playerA r) (playerB r) (currentDelta r)
            (SPORT_LABELS s) (sportsRemaining r)"
  let ?stage = "if sportsRemaining r = 1 then ?last
                else if sportsRemaining r = 2 then ?before else ?multiple"
  have ns: "nextSport SPORTS (sports r) = Inr (Some s)"
    using ip(2) s by simp
  have g: "generateInProgressAnalysis (r\<lparr>analysis := []\<rparr>) (playerA r) (playerB r) = Inr ?stage"
    by (simp add: generateInProgressAnalysis_def Let_def ns)
  have rs: "r = ?stage"
    using trans [OF ip(1) [symmetric] g] by (simp only: sum.inject)
  {
    assume "sportsRemaining r = 1"
    then have "?stage = ?last"
      by simp
    then have "r = ?last"
      by (rule trans [OF rs])
    then have "analysis r = analysis ?last"
      by (rule arg_cong)
    with s show "\<exists>s. find (\<lambda>s. \<not> is_played sc s) SPORTS = Some s \<and>
        analysis r = analysis
          (analyzeLastSport (current_leader (r\<lparr>analysis := []\<rparr>) (playerA r) (playerB r))
             (playerA r) (playerB r) (currentDelta r) (SPORT_LABELS s))"
      by blast
  }
  {
    assume "sportsRemaining r = 2"
    then have "?stage = ?before"
      by simp
    then have "r = ?before"
      by (rule trans [OF rs])
    then have "analysis r = analysis ?before"
      by (rule arg_cong)
    with s show "\<exists>s. find (\<lambda>s. \<not> is_played sc s) SPORTS = Some s \<and>
        analysis r = analysis
          (analyzeBeforeTennis (current_leader (r\<lparr>analysis := []\<rparr>) (playerA r) (playerB r))
             (playerA r) (playerB r) (currentDelta r) (SPORT_LABELS s))"
      by blast
  }
  {
    assume "3 \<le> sportsRemaining r"
    then have "?stage = ?multiple"
      by simp
    then have "r = ?multiple"
      by (rule trans [OF rs])
    then have "analysis r = analysis ?multiple"
      by (rule arg_cong)
    with s show "\<exists>s. find (\<lambda>s. \<not> is_played sc s) SPORTS = Some s \<and>
        analysis r = analysis
          (analyzeMultipleSportsRemaining
             (current_leader (r\<lparr>analysis := []\<rparr>) (playerA r) (playerB r))
             (playerA r) (playerB r) (currentDelta r) (SPORT_LABELS s) (sportsRemaining r))"
      by blast
  }
qed

subsection \<open>Rules for evaluating the engine on given inputs\<close>

lemmas parse_eval =
  parseScore.simps asc_def trim_def is_space_def remove_spaces_def match_score_def is_digit_def
  parseInt_def Let_def

lemmas aggregate_eval = played_sports_def SPORTS_def is_played_def pointsA_def pointsB_def

lemma digits_small: "n < 10 \<Longrightarrow> digits n = [48 + n]"
  by (simp add: digits.simps)

lemma digits_large: "\<not> n < 10 \<Longrightarrow> digits n = digits (n div 10) @ [48 + n mod 10]"
  by (subst digits.simps) simp

lemmas message_eval =
  asc_def num_str_def digits_small digits_large trophy_def tennis_ball_def bar_chart_def high_voltage_def
  geq_sign_def leq_sign_def e_acute_def e_grave_def e_circ_def a_grave_def E_acute_def

lemmas run_eval =
  analyzeMatch_def initial_result_def SPORTS_def parse_sport_def generateInProgressAnalysis_def
  current_leader_def analyzeLastSport_def analyzeBeforeTennis_def
  analyzeMultipleSportsRemaining_def calculateScoreForGain_def push_if_truthy_def push_def
  skip_tennis_message_def advantage_message_def must_gain_message_def
  clinch_possible_message_def MAX_POINTS_PER_SET_def Let_def

subsection \<open>What parseScore accepts\<close>

lemma hyphen_no_digit: "\<not> is_digit 45"
  by (simp add: is_digit_def)

lemma digit_no_space: "is_digit c \<Longrightarrow> \<not> is_space c"
  by (auto simp: is_digit_def is_space_def)

lemma match_score_iff:
  "match_score s = Some (a, b) \<longleftrightarrow>
   s = a @ 45 # b \<and> a \<noteq> [] \<and> b \<noteq> [] \<and> list_all is_digit a \<and> list_all is_digit b"
proof
  assume m: "match_score s = Some (a, b)"
  then obtain c where d: "dropWhile is_digit s = c # b" and a: "a = takeWhile is_digit s"
    and rest: "a \<noteq> []" "c = 45" "b \<noteq> []" "list_all is_digit b"
    by (auto simp: match_score_def Let_def split: list.splits if_splits)
  have "s = takeWhile is_digit s @ dropWhile is_digit s"
    by simp
  then have "s = a @ 45 # b"
    using d a rest(2) by simp
  moreover have "list_all is_digit a"
    unfolding a list_all_iff by (auto dest: set_takeWhileD)
  ultimately show "s = a @ 45 # b \<and> a \<noteq> [] \<and> b \<noteq> [] \<and> list_all is_digit a \<and> list_all is_digit b"
    using rest by simp
next
  assume h: "s = a @ 45 # b \<and> a \<noteq> [] \<and> b \<noteq> [] \<and> list_all is_digit a \<and> list_all is_digit b"
  then have all: "\<forall>x\<in>set a. is_digit x"
    by (simp add: list_all_iff)
  have t: "takeWhile is_digit s = a"
    using h all hyphen_no_digit by (simp add: takeWhile_append2)
  have d: "dropWhile is_digit s = 45 # b"
    using h all hyphen_no_digit by (simp add: dropWhile_append2)
  show "match_score s = Some (a, b)"
    unfolding match_score_def Let_def t d using h by simp
qed

lemma match_score_None_iff:
  "match_score s = None \<longleftrightarrow>
   (\<nexists>a b. s = a @ 45 # b \<and> a \<noteq> [] \<and> b \<noteq> [] \<and> list_all is_digit a \<and> list_all is_digit b)"
proof (cases "match_score s")
  case None
  then show ?thesis
    using match_score_iff [of s] by auto
next
  case (Some p)
  then show ?thesis
    using match_score_iff [of s "fst p" "snd p"] by auto
qed

lemma trim_Nil_iff: "trim s = [] \<longleftrightarrow> list_all is_space s"
proof
  assume "trim s = []"
  then have a: "\<forall>x\<in>set (dropWhile is_space s). is_space x"
    by (simp add: trim_def dropWhile_eq_Nil_conv)
  have "dropWhile is_space s = []"
  proof (cases "dropWhile is_space s")
    case Nil
    then show ?thesis by simp
  next
    case (Cons c cs)
    then have "\<not> is_space c"
      using hd_dropWhile [of is_space s] by auto
    then show ?thesis
      using a Cons by auto
  qed
  then show "list_all is_space s"
    by (simp add: dropWhile_eq_Nil_conv list_all_iff)
next
  assume "list_all is_space s"
  then have d: "dropWhile is_space s = []"
    by (simp add: dropWhile_eq_Nil_conv list_all_iff)
  show "trim s = []"
    unfolding trim_def d by simp
qed

lemma remove_spaces_blank: "list_all is_space s \<Longrightarrow> remove_spaces s = []"
  by (induction s) (simp_all add: remove_spaces_def)

lemma parseScore_string_eq:
  "parseScore (JStr s) =
     (case match_score (remove_spaces s) of
        None \<Rightarrow> Inr None
      | Some (a, b) \<Rightarrow> Inr (Some (parseInt a, parseInt b)))"
proof (cases "list_all is_space s")
  case True
  then have "remove_spaces s = []"
    by (rule remove_spaces_blank)
  then have "match_score (remove_spaces s) = None"
    by (simp add: match_score_def)
  then show ?thesis
    using True by (simp add: parseScore.simps trim_Nil_iff)
next
  case False
  then have ne: "s \<noteq> []"
    by auto
  show ?thesis
  proof (cases "s = asc ''-''")
    case True
    then show ?thesis
      by (simp add: parse_eval)
  next
    case neq: False
    show ?thesis
      using False ne neq by (simp add: parseScore.simps trim_Nil_iff)
  qed
qed

lemma parseInt_snoc: "parseInt (s @ [c]) = parseInt s * 10 + (int c - 48)"
  by (simp add: parseInt_def)

lemma parseInt_nonneg: "list_all is_digit s \<Longrightarrow> 0 \<le> parseInt s"
proof (induction s rule: rev_induct)
  case Nil
  show ?case by (simp add: parseInt_def)
next
  case (snoc c s)
  then show ?case
    by (simp add: parseInt_snoc is_digit_def)
qed

lemma digits_props:
  "digits n \<noteq> [] \<and> list_all is_digit (digits n) \<and> parseInt (digits n) = int n"
proof (induction n rule: digits.induct)
  case (1 n)
  show ?case
  proof (cases "n < 10")
    case True
    then show ?thesis
      by (subst (1 2 3) digits.simps) (simp add: is_digit_def parseInt_def)
  next
    case False
    with 1 have ih: "digits (n div 10) \<noteq> []" "list_all is_digit (digits (n div 10))"
      "parseInt (digits (n div 10)) = int (n div 10)"
      by simp_all
    have m: "n mod 10 < 10"
      by simp
    show ?thesis
      using False ih m
      by (subst (1 2 3) digits.simps) (simp add: is_digit_def parseInt_snoc zdiv_int zmod_int)
  qed
qed

lemma remove_spaces_digits: "list_all is_digit s \<Longrightarrow> remove_spaces s = s"
  by (induction s) (simp_all add: remove_spaces_def digit_no_space)

lemma remove_spaces_append: "remove_spaces (s @ t) = remove_spaces s @ remove_spaces t"
  by (simp add: remove_spaces_def)

lemma parseScore_rendering:
  assumes "0 \<le> x" "0 \<le> y"
  shows "parseScore (JStr (num_str x @ asc ''-'' @ num_str y)) = Inr (Some (x, y))"
    and "parseScore (JStr (num_str x @ asc '' - '' @ num_str y)) = Inr (Some (x, y))"
proof -
  let ?a = "digits (nat x)" and ?b = "digits (nat y)"
  have nx: "num_str x = ?a" and ny: "num_str y = ?b"
    using assms by (simp_all add: num_str_def)
  have m: "match_score (?a @ 45 # ?b) = Some (?a, ?b)"
    using digits_props [of "nat x"] digits_props [of "nat y"] by (simp add: match_score_iff)
  have r1: "remove_spaces (?a @ asc ''-'' @ ?b) = ?a @ 45 # ?b"
    using digits_props [of "nat x"] digits_props [of "nat y"]
    by (simp add: remove_spaces_append remove_spaces_digits)
       (simp add: remove_spaces_def asc_def is_space_def)
  have r2: "remove_spaces (?a @ asc '' - '' @ ?b) = ?a @ 45 # ?b"
    using digits_props [of "nat x"] digits_props [of "nat y"]
    by (simp add: remove_spaces_append remove_spaces_digits)
       (simp add: remove_spaces_def asc_def is_space_def)
  show "parseScore (JStr (num_str x @ asc ''-'' @ num_str y)) = Inr (Some (x, y))"
    using assms digits_props [of "nat x"] digits_props [of "nat y"]
    by (simp add: parseScore_string_eq nx ny r1 m)
  show "parseScore (JStr (num_str x @ asc '' - '' @ num_str y)) = Inr (Some (x, y))"
    using assms digits_props [of "nat x"] digits_props [of "nat y"]
    by (simp add: parseScore_string_eq nx ny r2 m)
qed

lemma no_hyphen: "45 \<notin> set s \<Longrightarrow> \<nexists>a b. s = a @ 45 # b \<and> a \<noteq> [] \<and> b \<noteq> []
          \<and> list_all is_digit a \<and> list_all is_digit b"
  by auto

lemma takeWhile_digits: "list_all is_digit (takeWhile is_digit s)"
  by (auto simp: list_all_iff dest: set_takeWhileD)

lemma remove_spaces_takeWhile: "remove_spaces (takeWhile is_space s) = []"
  by (rule remove_spaces_blank) (auto simp: list_all_iff dest: set_takeWhileD)

lemma spec_score_form_cleaned:
  assumes "spec_score_form s"
  shows "\<exists>a b. remove_spaces s = a @ 45 # b \<and> a \<noteq> [] \<and> b \<noteq> []
    \<and> list_all is_digit a \<and> list_all is_digit b"
proof -
  let ?a = "takeWhile is_digit s" and ?r0 = "dropWhile is_digit s"
  from assms obtain r where r: "dropWhile is_space ?r0 = 45 # r"
    and a: "?a \<noteq> []" and b: "dropWhile is_space r \<noteq> []"
    and db: "list_all is_digit (dropWhile is_space r)"
    by (auto simp: spec_score_form_def Let_def split: list.splits)
  let ?b = "dropWhile is_space r"
  have s: "s = ?a @ ?r0"
    by simp
  have r0: "?r0 = takeWhile is_space ?r0 @ 45 # r"
    using takeWhile_dropWhile_id [of is_space ?r0] r by simp
  have rr: "r = takeWhile is_space r @ ?b"
    by simp
  have "remove_spaces s = remove_spaces ?a @ remove_spaces ?r0"
    by (subst s) (rule remove_spaces_append)
  also have "remove_spaces ?a = ?a"
    by (rule remove_spaces_digits) (rule takeWhile_digits)
  also have "remove_spaces ?r0 = remove_spaces (takeWhile is_space ?r0) @ remove_spaces (45 # r)"
    by (subst r0) (rule remove_spaces_append)
  also have "remove_spaces (takeWhile is_space ?r0) = []"
    by (rule remove_spaces_takeWhile)
  also have "remove_spaces (45 # r) = 45 # remove_spaces r"
    by (simp add: remove_spaces_def is_space_def)
  also have "remove_spaces r = remove_spaces (takeWhile is_space r) @ remove_spaces ?b"
    by (subst rr) (rule remove_spaces_append)
  also have "remove_spaces (takeWhile is_space r) = []"
    by (rule remove_spaces_takeWhile)
  also have "remove_spaces ?b = ?b"
    by (rule remove_spaces_digits) (rule db)
  finally have "remove_spaces s = ?a @ 45 # ?b"
    by simp
  then show ?thesis
    using a b db takeWhile_digits [of s] by blast
qed

subsection \<open>The examples\<close>

lemma example_run:
  assumes "\<And>s. string_or_absent (sc s)"
  shows "\<exists>r. analyzeMatch sc a b = Inr r"
  using assms parseScore_string analyzeMatch_returns [of sc a b] by blast

lemma scores_object_strings:
  "string_or_absent t \<Longrightarrow> string_or_absent b \<Longrightarrow> string_or_absent q \<Longrightarrow> string_or_absent e \<Longrightarrow>
   string_or_absent (scores_object t b q e s)"
  by (cases s) simp_all








lemma three_sets_to_nil_strings: "string_or_absent (three_sets_to_nil s)"
  by (simp add: three_sets_to_nil_def scores_object_strings)

lemma three_sets_to_nil_parsed:
  "parseScore (three_sets_to_nil Tabletennis) = Inr (Some (21, 0))"
  "parseScore (three_sets_to_nil Badminton) = Inr (Some (21, 0))"
  "parseScore (three_sets_to_nil Squash) = Inr (Some (21, 0))"
  "parseScore (three_sets_to_nil Tennis) = Inr None"
  by (simp_all add: three_sets_to_nil_def parse_eval)

lemma three_sets_to_nil_run:
  assumes "analyzeMatch three_sets_to_nil a b = Inr r"
  shows "status r = Finished" "sportsRemaining r = 1" "currentDelta r = 63"
    "totalA r = 63" "totalB r = 0" "winner r = Some (playerA r)"
proof -
  note agg = analyzeMatch_aggregate [OF assms]
  show t: "totalA r = 63" "totalB r = 0"
    using agg(3,4) by (simp_all add: aggregate_eval three_sets_to_nil_parsed)
  have p: "sportsPlayed r = 3"
    using agg(5) by (simp add: aggregate_eval three_sets_to_nil_parsed)
  show "sportsRemaining r = 1"
    using agg(6) p by simp
  show "currentDelta r = 63"
    using agg(7) t by simp
  show "status r = Finished" "winner r = Some (playerA r)"
    using analyzeMatch_classify(3) [OF assms] agg(6,7,8) p t by simp_all
qed

lemma one_tied_set_strings: "string_or_absent (one_tied_set s)"
  by (simp add: one_tied_set_def scores_object_strings)

lemma one_tied_set_parsed:
  "parseScore (one_tied_set Tabletennis) = Inr (Some (21, 21))"
  "parseScore (one_tied_set Badminton) = Inr None"
  "parseScore (one_tied_set Squash) = Inr None"
  "parseScore (one_tied_set Tennis) = Inr None"
  by (simp_all add: one_tied_set_def parse_eval)

lemma odd_inputs_strings: "string_or_absent (odd_inputs s)"
  by (simp add: odd_inputs_def scores_object_strings)

lemma odd_inputs_parsed:
  "parseScore (odd_inputs Tabletennis) = Inr (Some (100, 0))"
  "parseScore (odd_inputs Badminton) = Inr None"
  "parseScore (odd_inputs Squash) = Inr None"
  "parseScore (odd_inputs Tennis) = Inr None"
  by (simp_all add: odd_inputs_def parse_eval)




lemma two_sets_level_strings: "string_or_absent (two_sets_level s)"
  by (simp add: two_sets_level_def scores_object_strings)

lemma two_sets_level_parsed:
  "parseScore (two_sets_level Tabletennis) = Inr (Some (21, 15))"
  "parseScore (two_sets_level Badminton) = Inr (Some (15, 21))"
  "parseScore (two_sets_level Squash) = Inr None"
  "parseScore (two_sets_level Tennis) = Inr None"
  by (simp_all add: two_sets_level_def parse_eval)

lemma two_sets_level_run:
  assumes "analyzeMatch two_sets_level a b = Inr r"
  shows "status r = In_progress" "sportsRemaining r = 2" "currentDelta r = 0"
    "totalA r = 36" "totalB r = 36"
    "find (\<lambda>s. \<not> is_played two_sets_level s) SPORTS = Some Squash"
proof -
  note agg = analyzeMatch_aggregate [OF assms]
  show t: "totalA r = 36" "totalB r = 36"
    using agg(3,4) by (simp_all add: aggregate_eval two_sets_level_parsed)
  have p: "sportsPlayed r = 2"
    using agg(5) by (simp add: aggregate_eval two_sets_level_parsed)
  show "sportsRemaining r = 2"
    using agg(6) p by simp
  show "currentDelta r = 0"
    using agg(7) t by simp
  show "status r = In_progress"
    using analyzeMatch_classify(4) [OF assms] agg(6,7,8) p t by simp
  show "find (\<lambda>s. \<not> is_played two_sets_level s) SPORTS = Some Squash"
    by (simp add: aggregate_eval two_sets_level_parsed)
qed

lemma A_leads_by_21_parsed:
  "parseScore (A_leads_by_21 Tabletennis) = Inr (Some (21, 0))"
  "parseScore (A_leads_by_21 Badminton) = Inr (Some (19, 21))"
  "parseScore (A_leads_by_21 Squash) = Inr (Some (21, 19))"
  "parseScore (A_leads_by_21 Tennis) = Inr None"
  by (simp_all add: A_leads_by_21_def parse_eval)

lemma B_leads_by_21_parsed:
  "parseScore (B_leads_by_21 Tabletennis) = Inr (Some (0, 21))"
  "parseScore (B_leads_by_21 Badminton) = Inr (Some (21, 19))"
  "parseScore (B_leads_by_21 Squash) = Inr (Some (19, 21))"
  "parseScore (B_leads_by_21 Tennis) = Inr None"
  by (simp_all add: B_leads_by_21_def parse_eval)

section \<open>The claims\<close>

subsection \<open>C1: the status rules\<close>



subsection \<open>C2: the aggregates\<close>



subsection \<open>C3: what parseScore accepts\<close>

text \<open>
  C3 as stated says that every string that is not of the form digits, hyphen, digits with
  optional white space around the hyphen is "not played". The string \<^verbatim>\<open>"2 1-15"\<close> is not
  of that form, and it parses to the pair (21, 15): \<^verbatim>\<open>parseScore\<close> deletes white space
  everywhere in the string before it matches.
\<close>

theorem parseScore_ignores_spaces_counterexample:
  "\<not> spec_score_form (asc ''2 1-15'') \<and> parseScore (JStr (asc ''2 1-15'')) = Inr (Some (21, 15))"
  by (simp add: spec_score_form_def parse_eval)

text \<open>
  C3, amended. \<^verbatim>\<open>parseScore\<close> returns "not played" for an absent score, for an empty or
  blank string and for a lone hyphen. For any other string it deletes all white space,
  wherever it stands: when what is left is digits, a hyphen, digits, it returns a pair,
  and when the two numbers written are below \<open>2^53\<close> the pair is these two numbers, which
  are not negative; when what is left has any other form it returns "not played". The
  rendering \<^verbatim>\<open>A-B\<close> of two non-negative numbers below \<open>2^53\<close>, with or without spaces
  around the hyphen, parses back to the two numbers, and every string of the form of the
  specification parses to a pair. No string makes it raise.
\<close>

theorem parseScore_rule:
  "parseScore JUndefined = Inr None
   \<and> (\<forall>s. list_all is_space s \<longrightarrow> parseScore (JStr s) = Inr None)
   \<and> parseScore (JStr (asc ''-'')) = Inr None
   \<and> (\<forall>s a b. remove_spaces s = a @ 45 # b \<and> a \<noteq> [] \<and> b \<noteq> []
          \<and> list_all is_digit a \<and> list_all is_digit b \<longrightarrow>
        (\<exists>p. parseScore (JStr s) = Inr (Some p))
        \<and> (parseInt a < 2 ^ 53 \<and> parseInt b < 2 ^ 53 \<longrightarrow>
             parseScore (JStr s) = Inr (Some (parseInt a, parseInt b))
             \<and> 0 \<le> parseInt a \<and> 0 \<le> parseInt b))
   \<and> (\<forall>s. (\<nexists>a b. remove_spaces s = a @ 45 # b \<and> a \<noteq> [] \<and> b \<noteq> []
          \<and> list_all is_digit a \<and> list_all is_digit b) \<longrightarrow>
        parseScore (JStr s) = Inr None)
   \<and> (\<forall>x y. 0 \<le> x \<and> x < 2 ^ 53 \<and> 0 \<le> y \<and> y < 2 ^ 53 \<longrightarrow>
        parseScore (JStr (num_str x @ asc ''-'' @ num_str y)) = Inr (Some (x, y))
        \<and> parseScore (JStr (num_str x @ asc '' - '' @ num_str y)) = Inr (Some (x, y)))
   \<and> (\<forall>s. spec_score_form s \<longrightarrow> (\<exists>p. parseScore (JStr s) = Inr (Some p)))
   \<and> (\<forall>s. \<exists>p. parseScore (JStr s) = Inr p)"
proof (intro conjI allI impI)
  show "parseScore JUndefined = Inr None"
    by (simp add: parseScore.simps)
  show "parseScore (JStr (asc ''-'')) = Inr None"
    by (simp add: parse_eval)
next
  fix s
  assume "list_all is_space s"
  then show "parseScore (JStr s) = Inr None"
    by (simp add: parseScore_string_eq remove_spaces_blank match_score_def)
next
  fix s a b
  assume h: "remove_spaces s = a @ 45 # b \<and> a \<noteq> [] \<and> b \<noteq> []
          \<and> list_all is_digit a \<and> list_all is_digit b"
  then have "match_score (remove_spaces s) = Some (a, b)"
    by (simp add: match_score_iff)
  then show "\<exists>p. parseScore (JStr s) = Inr (Some p)"
    by (simp add: parseScore_string_eq)
next
  fix s a b
  assume h: "remove_spaces s = a @ 45 # b \<and> a \<noteq> [] \<and> b \<noteq> []
          \<and> list_all is_digit a \<and> list_all is_digit b"
    and "parseInt a < 2 ^ 53 \<and> parseInt b < 2 ^ 53"
  from h have "match_score (remove_spaces s) = Some (a, b)"
    by (simp add: match_score_iff)
  then show "parseScore (JStr s) = Inr (Some (parseInt a, parseInt b))"
    by (simp add: parseScore_string_eq)
  show "0 \<le> parseInt a" "0 \<le> parseInt b"
    using h by (simp_all add: parseInt_nonneg)
next
  fix s
  assume "\<nexists>a b. remove_spaces s = a @ 45 # b \<and> a \<noteq> [] \<and> b \<noteq> []
          \<and> list_all is_digit a \<and> list_all is_digit b"
  then have "match_score (remove_spaces s) = None"
    by (simp add: match_score_None_iff)
  then show "parseScore (JStr s) = Inr None"
    by (simp add: parseScore_string_eq)
next
  fix x y :: int
  assume "0 \<le> x \<and> x < 2 ^ 53 \<and> 0 \<le> y \<and> y < 2 ^ 53"
  then show "parseScore (JStr (num_str x @ asc ''-'' @ num_str y)) = Inr (Some (x, y))"
    and "parseScore (JStr (num_str x @ asc '' - '' @ num_str y)) = Inr (Some (x, y))"
    by (simp_all add: parseScore_rendering)
next
  fix s
  assume "spec_score_form s"
  then obtain a b where h: "remove_spaces s = a @ 45 # b \<and> a \<noteq> [] \<and> b \<noteq> []
      \<and> list_all is_digit a \<and> list_all is_digit b"
    using spec_score_form_cleaned by blast
  then have "match_score (remove_spaces s) = Some (a, b)"
    by (simp add: match_score_iff)
  then show "\<exists>p. parseScore (JStr s) = Inr (Some p)"
    by (simp add: parseScore_string_eq)
next
  fix s
  show "\<exists>p. parseScore (JStr s) = Inr p"
    by (simp add: parseScore_string_eq split: option.splits)
qed

text \<open>
  The strings of the specification: the empty and the blank string, \<^verbatim>\<open>"abc"\<close> and
  \<^verbatim>\<open>"21"\<close> followed by an en dash are "not played"; \<^verbatim>\<open>"21 - 15"\<close> is the pair (21, 15),
  and so is \<^verbatim>\<open>" 2 1-15 "\<close>.
\<close>

theorem parseScore_rule_witness:
  "parseScore (JStr []) = Inr None
   \<and> parseScore (JStr (asc ''  '')) = Inr None
   \<and> parseScore (JStr (asc ''abc'')) = Inr None
   \<and> parseScore (JStr (asc ''21'' @ [0x2013])) = Inr None
   \<and> parseScore (JStr (asc ''21 - 15'')) = Inr (Some (21, 15))
   \<and> parseScore (JStr (asc '' 2 1-15 '')) = Inr (Some (21, 15))"
proof -
  note rule = parseScore_rule
  from rule have blank: "\<And>s. list_all is_space s \<Longrightarrow> parseScore (JStr s) = Inr None"
    by blast
  from rule have pair: "\<And>s a b. remove_spaces s = a @ 45 # b \<and> a \<noteq> [] \<and> b \<noteq> []
          \<and> list_all is_digit a \<and> list_all is_digit b \<Longrightarrow>
        parseInt a < 2 ^ 53 \<and> parseInt b < 2 ^ 53 \<Longrightarrow>
        parseScore (JStr s) = Inr (Some (parseInt a, parseInt b))"
    by blast
  from rule have other: "\<And>s. (\<nexists>a b. remove_spaces s = a @ 45 # b \<and> a \<noteq> [] \<and> b \<noteq> []
          \<and> list_all is_digit a \<and> list_all is_digit b) \<Longrightarrow> parseScore (JStr s) = Inr None"
    by blast
  have 1: "parseScore (JStr []) = Inr None"
    by (rule blank) simp
  have 2: "parseScore (JStr (asc ''  '')) = Inr None"
    by (rule blank) (simp add: asc_def is_space_def)
  have 3: "parseScore (JStr (asc ''abc'')) = Inr None"
    by (rule other, rule no_hyphen) (simp add: remove_spaces_def asc_def is_space_def)
  have 4: "parseScore (JStr (asc ''21'' @ [0x2013])) = Inr None"
    by (rule other, rule no_hyphen) (simp add: remove_spaces_def asc_def is_space_def)
  have 5: "parseScore (JStr (asc ''21 - 15'')) = Inr (Some (21, 15))"
    using pair [of "asc ''21 - 15''" "asc ''21''" "asc ''15''"]
    by (simp add: remove_spaces_def asc_def is_space_def is_digit_def parseInt_def)
  have 6: "parseScore (JStr (asc '' 2 1-15 '')) = Inr (Some (21, 15))"
    using pair [of "asc '' 2 1-15 ''" "asc ''21''" "asc ''15''"]
    by (simp add: remove_spaces_def asc_def is_space_def is_digit_def parseInt_def)
  from 1 2 3 4 5 6 show ?thesis
    by blast
qed

subsection \<open>C4: no error reaches the caller\<close>

text \<open>
  C4. For every input of score strings, malformed ones and scores above 21 included, and
  for any player names, \<^verbatim>\<open>analyzeMatch\<close> returns a result and raises nothing, and every
  sport has its entry in the breakdown, played or not as its string parsed. When the
  scores are in the range of exact numbers, a set that parsed contributes its two scores
  to the totals and the difference of the two as its margin, which is 0 for a tied set
  such as 21-21.
\<close>

theorem never_raises:
  assumes "\<forall>s. string_or_absent (sc s)"
  shows "\<exists>r. analyzeMatch sc a b = Inr r
    \<and> (\<forall>s. \<exists>e. sports r s = Some e \<and> label e = SPORT_LABELS s \<and> played e = is_played sc s)
    \<and> (exact_numbers sc \<longrightarrow>
         totalA r = sum_list (map (pointsA sc) (played_sports sc))
         \<and> totalB r = sum_list (map (pointsB sc) (played_sports sc))
         \<and> (\<forall>s. sports r s = Some
               \<lparr>label = SPORT_LABELS s, played = is_played sc s,
                scoreA = (if is_played sc s then Some (pointsA sc s) else None),
                scoreB = (if is_played sc s then Some (pointsB sc s) else None),
                delta = pointsA sc s - pointsB sc s\<rparr>))"
proof -
  from assms have "\<forall>s. \<exists>p. parseScore (sc s) = Inr p"
    using parseScore_string by blast
  then obtain r where r: "analyzeMatch sc a b = Inr r"
    using analyzeMatch_returns by blast
  note agg = analyzeMatch_aggregate [OF r]
  have sA: "sum_list (map (pointsA sc) (played_sports sc)) = sum_list (map (pointsA sc) SPORTS)"
    unfolding played_sports_def by (rule sum_played) (simp add: points_unplayed)
  have sB: "sum_list (map (pointsB sc) (played_sports sc)) = sum_list (map (pointsB sc) SPORTS)"
    unfolding played_sports_def by (rule sum_played) (simp add: points_unplayed)
  show ?thesis
    using r agg(3,4) sA sB analyzeMatch_sports [OF r] by simp
qed

text \<open>
  The single tied set 21-21, with a name that is the empty string: both totals are 21, the
  margin of the set is 0. The score 100-0 next to three malformed strings: one sport
  played, totals 100 and 0.
\<close>

theorem never_raises_witness:
  "(\<exists>r. analyzeMatch one_tied_set (Some []) None = Inr r \<and> totalA r = 21 \<and> totalB r = 21
      \<and> sports r Tabletennis = Some
          \<lparr>label = SPORT_LABELS Tabletennis, played = True, scoreA = Some 21,
           scoreB = Some 21, delta = 0\<rparr>)
   \<and> (\<exists>r. analyzeMatch odd_inputs None None = Inr r \<and> totalA r = 100 \<and> totalB r = 0
      \<and> sports r Badminton = Some
          \<lparr>label = SPORT_LABELS Badminton, played = False, scoreA = None, scoreB = None,
           delta = 0\<rparr>)"
proof (intro conjI)
  show "\<exists>r. analyzeMatch one_tied_set (Some []) None = Inr r \<and> totalA r = 21 \<and> totalB r = 21
      \<and> sports r Tabletennis = Some
          \<lparr>label = SPORT_LABELS Tabletennis, played = True, scoreA = Some 21,
           scoreB = Some 21, delta = 0\<rparr>"
    using never_raises [of one_tied_set "Some []" None]
    by (auto simp add: one_tied_set_strings exact_numbers_def aggregate_eval one_tied_set_parsed)
  show "\<exists>r. analyzeMatch odd_inputs None None = Inr r \<and> totalA r = 100 \<and> totalB r = 0
      \<and> sports r Badminton = Some
          \<lparr>label = SPORT_LABELS Badminton, played = False, scoreA = None, scoreB = None,
           delta = 0\<rparr>"
    using never_raises [of odd_inputs None None]
    by (auto simp add: odd_inputs_strings exact_numbers_def aggregate_eval odd_inputs_parsed)
qed

subsection \<open>C5: one sport left, a lead below 21\<close>



subsection \<open>C6: one sport left, a lead of exactly 21\<close>

text \<open>
  C6 says that with one sport remaining and a lead of exactly 21 the analysis holds the
  one scenario that the trailing player must win the last sport 21-0 to reach the
  gummiarm, whichever player leads. The source tests \<^verbatim>\<open>delta === 21\<close> only where player A
  leads. With 61-40 for player A the scenario is the one of the claim. With the same sets
  exchanged, 40-61, player B leads by 21 and the branch for a smaller lead runs: it prints
  a score of 21 to -1 for player A, a scenario for player B, and the gummiarm at 21-0.
\<close>

theorem lead_of_21_not_mirrored:
  "map_sum id currentDelta (analyzeMatch A_leads_by_21 None None) = Inr 21
   \<and> map_sum id status (analyzeMatch A_leads_by_21 None None) = Inr In_progress
   \<and> map_sum id analysis (analyzeMatch A_leads_by_21 None None) = Inr
        [\<lparr>type = T_leader,
          message = asc ''Joueur A m'' @ e_grave @ asc ''ne de 21 points (61-40)''\<rparr>,
         \<lparr>type = T_scenario,
          message = asc ''Joueur B doit faire 21-0 au Tennis pour aller au Gummiarm''\<rparr>]
   \<and> map_sum id currentDelta (analyzeMatch B_leads_by_21 None None) = Inr (- 21)
   \<and> map_sum id status (analyzeMatch B_leads_by_21 None None) = Inr In_progress
   \<and> map_sum id analysis (analyzeMatch B_leads_by_21 None None) = Inr
        [\<lparr>type = T_leader,
          message = asc ''Joueur B m'' @ e_grave @ asc ''ne de 21 points (61-40)''\<rparr>,
         \<lparr>type = T_scenario,
          message = trophy @ asc '' Joueur A gagne si Tennis '' @ geq_sign @ asc '' 21--1''\<rparr>,
         \<lparr>type = T_scenario,
          message = trophy @ asc '' Joueur B gagne si Tennis '' @ leq_sign
            @ asc '' 21-1 ou Joueur B gagne le set''\<rparr>,
         \<lparr>type = T_gummiarm_scenario,
          message = high_voltage @ asc '' Gummiarm si Tennis = 21-0''\<rparr>]"
  by (simp add: run_eval A_leads_by_21_parsed B_leads_by_21_parsed message_eval)

subsection \<open>C7: three or more sports left\<close>



subsection \<open>C8: two sports left, level totals\<close>

text \<open>
  C8 as stated says that with two sports remaining and level totals, the stage emits the
  generic message about the winner of the next sport and no other entry. After two sets
  at 36 points each, the stage emits two entries: its header entry and the generic
  message.
\<close>

theorem level_before_tennis_counterexample:
  "map_sum id status (analyzeMatch two_sets_level None None) = Inr In_progress
   \<and> map_sum id sportsRemaining (analyzeMatch two_sets_level None None) = Inr 2
   \<and> map_sum id currentDelta (analyzeMatch two_sets_level None None) = Inr 0
   \<and> map_sum id analysis (analyzeMatch two_sets_level None None) = Inr
        [\<lparr>type = T_tied,
          message = E_acute @ asc ''galit'' @ e_acute @ asc '' parfaite 36-36''\<rparr>,
         \<lparr>type = T_header, message = bar_chart @ asc '' Analyse Squash :''\<rparr>,
         \<lparr>type = T_tennis_setup,
          message = tennis_ball @ asc '' Le gagnant du Squash aura l'' @ [39]
            @ asc ''avantage au tennis''\<rparr>]"
  by (simp add: run_eval two_sets_level_parsed message_eval)

text \<open>
  C8, amended. For every input with scores in the range of exact numbers that is
  classified \<open>in_progress\<close> with exactly two sports remaining
  and \<open>currentDelta = 0\<close>, the analysis is the tied entry, the header entry of the stage
  and the generic message that the winner of the next sport has the advantage in the
  tennis: no skip-tennis entry, no tennis-setup entry for one player, nothing else.
\<close>

theorem level_before_tennis:
  assumes "analyzeMatch sc a b = Inr r" and "status r = In_progress"
    and "sportsRemaining r = 2" and "currentDelta r = 0" and "exact_numbers sc"
  shows "\<exists>s. find (\<lambda>s. \<not> is_played sc s) SPORTS = Some s \<and>
    analysis r =
      [\<lparr>type = T_tied,
        message = E_acute @ asc ''galit'' @ e_acute @ asc '' parfaite '' @ num_str (totalA r)
          @ asc ''-'' @ num_str (totalB r)\<rparr>,
       \<lparr>type = T_header,
        message = bar_chart @ asc '' Analyse '' @ SPORT_LABELS s @ asc '' :''\<rparr>,
       \<lparr>type = T_tennis_setup,
        message = tennis_ball @ asc '' Le gagnant du '' @ SPORT_LABELS s @ asc '' aura l''
          @ [39] @ asc ''avantage au tennis''\<rparr>]"
proof -
  from in_progress_stage(2) [OF assms(1,2,3)] obtain s
    where s: "find (\<lambda>s. \<not> is_played sc s) SPORTS = Some s"
      and an: "analysis r = analysis
        (analyzeBeforeTennis (current_leader (r\<lparr>analysis := []\<rparr>) (playerA r) (playerB r))
           (playerA r) (playerB r) (currentDelta r) (SPORT_LABELS s))"
    by blast
  show ?thesis
    apply (rule exI [of _ s])
    apply (rule conjI [OF s])
    apply (rule trans [OF an])
    apply (simp add: assms(4) analyzeBeforeTennis_level current_leader_analysis)
    done
qed

text \<open>Two sets at 36 points each, squash to play.\<close>

theorem level_before_tennis_witness:
  "\<exists>r. analyzeMatch two_sets_level None None = Inr r \<and> status r = In_progress
     \<and> currentDelta r = 0 \<and> sportsRemaining r = 2
     \<and> analysis r =
        [\<lparr>type = T_tied,
          message = E_acute @ asc ''galit'' @ e_acute @ asc '' parfaite 36-36''\<rparr>,
         \<lparr>type = T_header, message = bar_chart @ asc '' Analyse Squash :''\<rparr>,
         \<lparr>type = T_tennis_setup,
          message = tennis_ball @ asc '' Le gagnant du Squash aura l'' @ [39]
            @ asc ''avantage au tennis''\<rparr>]"
proof -
  obtain r where run: "analyzeMatch two_sets_level None None = Inr r"
    using example_run [of two_sets_level None None, OF two_sets_level_strings] by blast
  note ex = two_sets_level_run [OF run]
  have "exact_numbers two_sets_level"
    by (simp add: exact_numbers_def aggregate_eval two_sets_level_parsed)
  from level_before_tennis [OF run ex(1) ex(2) ex(3) this]
  show ?thesis
    using run ex by (simp add: message_eval)
qed

subsection \<open>C9: the default names\<close>

text \<open>
  C9 as stated says that empty name strings given to the engine are replaced by the
  default names. The defaults of \<^verbatim>\<open>analyzeMatch\<close> are parameter defaults: they stand in
  for a name that is left out, and an empty string is kept. With two empty names the
  result has empty player names, an empty winner and a message that starts with a space.
\<close>

theorem empty_names_counterexample:
  "map_sum id playerA (analyzeMatch three_sets_to_nil (Some []) (Some [])) = Inr []
   \<and> map_sum id playerB (analyzeMatch three_sets_to_nil (Some []) (Some [])) = Inr []
   \<and> map_sum id winner (analyzeMatch three_sets_to_nil (Some []) (Some [])) = Inr (Some [])
   \<and> map_sum id analysis (analyzeMatch three_sets_to_nil (Some []) (Some [])) = Inr
        [\<lparr>type = T_winner,
          message = asc '' a d'' @ e_acute @ asc ''j'' @ a_grave @ asc '' gagn'' @ e_acute
            @ asc '' ! Avance de 63 pts, seulement 21 pts restants possibles.''\<rparr>]"
  by (simp add: run_eval three_sets_to_nil_parsed message_eval)

text \<open>
  C9, amended. When the two names are left out of the call, the result is the one of the
  call with the names "Joueur A" and "Joueur B": its \<open>playerA\<close> and \<open>playerB\<close> are these
  names and its winner, when there is one, is one of them. Names that are given, empty
  ones included, are used as they are.
\<close>

theorem default_names:
  "analyzeMatch sc None None = analyzeMatch sc (Some (asc ''Joueur A'')) (Some (asc ''Joueur B''))
   \<and> (\<forall>r. analyzeMatch sc None None = Inr r \<longrightarrow>
         playerA r = asc ''Joueur A'' \<and> playerB r = asc ''Joueur B''
         \<and> (winner r = None \<or> winner r = Some (asc ''Joueur A'')
              \<or> winner r = Some (asc ''Joueur B'')))
   \<and> (\<forall>nA nB r. analyzeMatch sc (Some nA) (Some nB) = Inr r \<longrightarrow>
         playerA r = nA \<and> playerB r = nB
         \<and> (winner r = None \<or> winner r = Some nA \<or> winner r = Some nB))"
proof (intro conjI allI impI)
  show "analyzeMatch sc None None
      = analyzeMatch sc (Some (asc ''Joueur A'')) (Some (asc ''Joueur B''))"
    by (simp add: analyzeMatch_def)
next
  fix r
  assume run: "analyzeMatch sc None None = Inr r"
  show "playerA r = asc ''Joueur A''" "playerB r = asc ''Joueur B''"
    using analyzeMatch_aggregate(1,2) [OF run] by simp_all
  then show "winner r = None \<or> winner r = Some (asc ''Joueur A'')
      \<or> winner r = Some (asc ''Joueur B'')"
    using winner_cases [OF run] by simp
next
  fix nA nB r
  assume run: "analyzeMatch sc (Some nA) (Some nB) = Inr r"
  show "playerA r = nA" "playerB r = nB"
    using analyzeMatch_aggregate(1,2) [OF run] by simp_all
  then show "winner r = None \<or> winner r = Some nA \<or> winner r = Some nB"
    using winner_cases [OF run] by simp
qed

text \<open>Three sets 21-0 without names: "Joueur A" has won, and the message says so.\<close>

theorem default_names_witness:
  "\<exists>r. analyzeMatch three_sets_to_nil None None = Inr r
     \<and> playerA r = asc ''Joueur A'' \<and> playerB r = asc ''Joueur B''
     \<and> winner r = Some (asc ''Joueur A'')
     \<and> analysis r =
        [\<lparr>type = T_winner,
          message = asc ''Joueur A a d'' @ e_acute @ asc ''j'' @ a_grave @ asc '' gagn''
            @ e_acute @ asc '' ! Avance de 63 pts, seulement 21 pts restants possibles.''\<rparr>]"
proof -
  obtain r where run: "analyzeMatch three_sets_to_nil None None = Inr r"
    using example_run [of three_sets_to_nil None None, OF three_sets_to_nil_strings] by blast
  note ex = three_sets_to_nil_run [OF run]
  have names: "playerA r = asc ''Joueur A''" "playerB r = asc ''Joueur B''"
    using default_names [of three_sets_to_nil] run by simp_all
  have an: "map_sum id analysis (analyzeMatch three_sets_to_nil None None) = Inr
        [\<lparr>type = T_winner,
          message = asc ''Joueur A a d'' @ e_acute @ asc ''j'' @ a_grave @ asc '' gagn''
            @ e_acute @ asc '' ! Avance de 63 pts, seulement 21 pts restants possibles.''\<rparr>]"
    by (simp add: run_eval three_sets_to_nil_parsed message_eval)
  show ?thesis
    using run names ex(6) an by simp
qed

subsection \<open>C10: no entry of type clinched\<close>

text \<open>
  C10. For every input, the analysis returned by \<^verbatim>\<open>analyzeMatch\<close> has no entry of type
  \<open>clinched\<close>. Only \<^verbatim>\<open>analyzeLastSport\<close> emits that type, for a lead above 21 (lemma
  \<open>entry_analyzeLastSport_decided\<close>), and it runs only for matches in progress with one
  sport remaining, where the lead is at most 21; a greater lead is classified
  \<open>finished\<close> and gets a \<open>winner\<close> entry.
\<close>

theorem never_clinched:
  assumes "analyzeMatch sc a b = Inr r"
  shows "T_clinched \<notin> set (map type (analysis r))"
proof (cases "status r = In_progress")
  case False
  from analyzeMatch_terminal [OF assms False] show ?thesis
    by (auto split: if_splits)
next
  case True
  note stage = in_progress_stage [OF assms True]
  let ?r0 = "current_leader (r\<lparr>analysis := []\<rparr>) (playerA r) (playerB r)"
  have r0: "\<And>e. e \<in> set (analysis ?r0) \<Longrightarrow> type e \<noteq> T_clinched"
    by (auto dest!: entry_current_leader)
  consider "sportsRemaining r = 1" | "sportsRemaining r = 2" | "3 \<le> sportsRemaining r"
    using stage(4) by linarith
  then have none: "\<And>e. e \<in> set (analysis r) \<Longrightarrow> type e \<noteq> T_clinched"
  proof cases
    case 1
    then have d: "\<bar>currentDelta r\<bar> \<le> 21"
      using stage(5) by simp
    from stage(1) [OF 1] obtain s where an: "analysis r = analysis
          (analyzeLastSport ?r0 (playerA r) (playerB r) (currentDelta r) (SPORT_LABELS s))"
      by blast
    fix e
    assume "e \<in> set (analysis r)"
    then have "e \<in> set (analysis
          (analyzeLastSport ?r0 (playerA r) (playerB r) (currentDelta r) (SPORT_LABELS s)))"
      unfolding an .
    from entry_analyzeLastSport [OF d this] r0 show "type e \<noteq> T_clinched"
      by auto
  next
    case 2
    from stage(2) [OF 2] obtain s where an: "analysis r = analysis
          (analyzeBeforeTennis ?r0 (playerA r) (playerB r) (currentDelta r) (SPORT_LABELS s))"
      by blast
    fix e
    assume "e \<in> set (analysis r)"
    then have "e \<in> set (analysis
          (analyzeBeforeTennis ?r0 (playerA r) (playerB r) (currentDelta r) (SPORT_LABELS s)))"
      unfolding an .
    from entry_analyzeBeforeTennis [OF this] r0 show "type e \<noteq> T_clinched"
      by auto
  next
    case 3
    from stage(3) [OF 3] obtain s where an: "analysis r = analysis
          (analyzeMultipleSportsRemaining ?r0 (playerA r) (playerB r) (currentDelta r)
             (SPORT_LABELS s) (sportsRemaining r))"
      by blast
    fix e
    assume "e \<in> set (analysis r)"
    then have "e \<in> set (analysis
          (analyzeMultipleSportsRemaining ?r0 (playerA r) (playerB r) (currentDelta r)
             (SPORT_LABELS s) (sportsRemaining r)))"
      unfolding an .
    from entry_analyzeMultipleSportsRemaining [OF this] r0 show "type e \<noteq> T_clinched"
      by auto
  qed
  show ?thesis
  proof
    assume "T_clinched \<in> set (map type (analysis r))"
    then obtain e where "e \<in> set (analysis r)" and "type e = T_clinched"
      by auto
    with none show False
      by blast
  qed
qed

text \<open>
  Three sets 21-0: one sport remaining and a lead of 63; the status is \<open>finished\<close> and
  no entry is of type \<open>clinched\<close>.
\<close>

theorem never_clinched_witness:
  "\<exists>r. analyzeMatch three_sets_to_nil None None = Inr r \<and> sportsRemaining r = 1
     \<and> currentDelta r = 63 \<and> status r = Finished
     \<and> T_clinched \<notin> set (map type (analysis r))"
proof -
  obtain r where run: "analyzeMatch three_sets_to_nil None None = Inr r"
    using example_run [of three_sets_to_nil None None, OF three_sets_to_nil_strings] by blast
  note ex = three_sets_to_nil_run [OF run]
  from never_clinched [OF run] run ex show ?thesis
    by blast
qed

end
